theory Spec2Isabelle
  imports Complex_Main "HOL-Library.Monad_Syntax"
begin

section \<open>The packet-transport kernel of montecarlo\_multizone.pyx\<close>

text \<open>
  The kernel is Cython compiled with \<^verbatim>\<open>boundscheck=False\<close>, \<^verbatim>\<open>wraparound=False\<close> and
  \<^verbatim>\<open>cdivision=True\<close>, working on raw C pointers into NumPy buffers.

  \<^item> \<^verbatim>\<open>float_type_t\<close> (a 64-bit float) is modelled by \<^typ>\<open>real\<close>; an infinity or a NaN is
    not a value of the model. \<^verbatim>\<open>compute_distance2outer\<close>, whose sign depends on it, is
    modelled with the rounding of binary64 after every operation; the other functions
    use the exact operation. Where NumPy produces an infinity (the reciprocal of a zero
    electron density) or C a NaN (the square root of a negative number) the computation
    leaves the model, with the result \<open>None\<close>.
  \<^item> \<^verbatim>\<open>int_type_t\<close> (a 64-bit integer) is modelled by \<^typ>\<open>int\<close>; every value is an array
    position or a small flag, far from the wrap-around.
  \<^item> An array behind a pointer is a list. A read or write outside the array, or through a
    pointer that was never assigned, is undefined behaviour in C; here it is the value
    \<open>None\<close> of an option type, and it ends the computation.
  \<^item> A function with a \<^verbatim>\<open>while True\<close> loop returns a nested option: \<open>None\<close> when the loop
    never ends, \<open>Some None\<close> when the computation has ended in undefined behaviour or has
    left the model, \<open>Some (Some v)\<close> when \<open>v\<close> is returned.
  \<^item> The Mersenne Twister behind \<^verbatim>\<open>rk_double(&mt_state)\<close> is not part of the repository. The
    sequence of numbers it hands out is a parameter \<open>draws :: nat \<Rightarrow> real\<close>, and the generator
    state is the count of numbers drawn so far.
  \<^item> Everything under \<^verbatim>\<open>IF packet_logging == True\<close> is compiled out (\<^verbatim>\<open>DEF packet_logging = False\<close>)
    and the \<^verbatim>\<open>print\<close> statements do not touch the state; both are left out, except for the
    warning of \<^verbatim>\<open>compute_distance2line\<close>, which is returned as a flag.
\<close>

subsection \<open>Constants\<close>

definition miss_distance :: real where
  "miss_distance = 10 ^ 99"

text \<open>
  Modelled from the spec: \<^verbatim>\<open>constants.cgs.c.value\<close> comes from astropy, which is not part
  of the repository; the specification gives \<open>c = 2.99792458e10\<close> cm/s.
\<close>

definition c :: real where
  "c = 29979245800"

definition inverse_c :: real where
  "inverse_c = 1 / c"

definition sigma_thomson :: real where
  "sigma_thomson = 6652486 / 10 ^ 31"

definition inverse_sigma_thomson :: real where
  "inverse_sigma_thomson = 1 / sigma_thomson"

subsection \<open>Array access\<close>

definition rd :: "'a list \<Rightarrow> int \<Rightarrow> 'a option" where
  "rd xs i = (if 0 \<le> i \<and> i < int (length xs) then Some (xs ! nat i) else None)"

text \<open>\<^verbatim>\<open>xs[i] += v\<close>\<close>

definition add_at :: "real list \<Rightarrow> int \<Rightarrow> real \<Rightarrow> real list option" where
  "add_at xs i v =
     (if 0 \<le> i \<and> i < int (length xs) then Some (xs[nat i := xs ! nat i + v]) else None)"

text \<open>\<^verbatim>\<open>xs[i] = v\<close>\<close>

definition wr :: "'a list \<Rightarrow> int \<Rightarrow> 'a \<Rightarrow> 'a list option" where
  "wr xs i v = (if 0 \<le> i \<and> i < int (length xs) then Some (xs[nat i := v]) else None)"

subsection \<open>Rounding to binary64\<close>

text \<open>
  Rounding to the nearest integer, a tie to the even one.
\<close>

definition round_half_even :: "real \<Rightarrow> int" where
  "round_half_even y =
     (let n = \<lfloor>y\<rfloor> in
      if y - of_int n < 1 / 2 then n
      else if y - of_int n > 1 / 2 then n + 1
      else if even n then n else n + 1)"

text \<open>
  The binary64 number nearest to \<open>x\<close>, a tie to the one with the even significand: a
  significand of 53 bits, and \<open>2 powi (-1074)\<close> as the smallest spacing (subnormal
  numbers). The exponent is not bounded above here.
\<close>

definition f64_round :: "real \<Rightarrow> real" where
  "f64_round x =
     (if x = 0 then 0
      else let e = max (\<lfloor>log 2 \<bar>x\<bar>\<rfloor> - 52) (- 1074)
           in of_int (round_half_even (x / power_int 2 e)) * power_int 2 e)"

text \<open>
  The result of a binary64 operation whose exact result is \<open>x\<close>: \<open>None\<close> when it
  overflows to an infinity.
\<close>

definition f64 :: "real \<Rightarrow> real option" where
  "f64 x = (let y = f64_round x in if \<bar>y\<bar> < 2 ^ 1024 then Some y else None)"

subsection \<open>binary\_search (lines 213-230)\<close>

text \<open>
  The driver calls it with \<open>imin = 0\<close> and \<open>imax = no_of_lines\<close>. For indices that are not
  negative the C quotient \<^verbatim>\<open>(imin + imax) / 2\<close>, which truncates, is \<open>div\<close>.
\<close>

function binary_search :: "real list \<Rightarrow> real \<Rightarrow> int \<Rightarrow> int \<Rightarrow> int option" where
  "binary_search nu nu_insert imin imax =
     (if imax - imin > 2 then
        (let imid = (imin + imax) div 2 in
         case rd nu imid of
           None \<Rightarrow> None
         | Some v \<Rightarrow>
             if v < nu_insert then binary_search nu nu_insert imin (imid + 1)
             else binary_search nu nu_insert imid imax)
      else Some (imin + 1))"
  by pat_completeness auto
termination
  by (relation "measure (\<lambda>(nu, nu_insert, imin, imax). nat (imax - imin))") auto

declare binary_search.simps [simp del]

text \<open>
  LineSearch in the words of the specification: the smallest index \<open>i\<close> with
  \<open>line_list_nu[i] \<le> nu_insert\<close>, and the length of the table when there is none.
\<close>

definition LineSearch_spec :: "real list \<Rightarrow> real \<Rightarrow> int" where
  "LineSearch_spec line_list_nu nu_insert =
     int (length (takeWhile (\<lambda>v. nu_insert < v) line_list_nu))"

subsection \<open>move\_packet (lines 264-300)\<close>

text \<open>
  The pointers \<^verbatim>\<open>r\<close>, \<^verbatim>\<open>mu\<close>, \<^verbatim>\<open>js\<close> and \<^verbatim>\<open>nubars\<close> are written through; the model returns
  the Doppler factor together with what they point to afterwards.
\<close>

definition move_packet ::
  "real \<Rightarrow> real \<Rightarrow> real \<Rightarrow> real \<Rightarrow> real \<Rightarrow> real list \<Rightarrow> real list \<Rightarrow> real \<Rightarrow> int
     \<Rightarrow> (real \<times> real \<times> real \<times> real list \<times> real list) option" where
  "move_packet r mu nu energy distance js nubars inverse_t_exp cur_zone_id =
     (let doppler_factor = 1 - mu * r * inverse_t_exp * inverse_c in
      if distance \<le> 0 then Some (doppler_factor, r, mu, js, nubars)
      else do {
        let comov_energy = energy * doppler_factor;
        let comov_nu = nu * doppler_factor;
        js' \<leftarrow> add_at js cur_zone_id (comov_energy * distance);
        nubars' \<leftarrow> add_at nubars cur_zone_id (comov_energy * distance * comov_nu);
        let new_r = sqrt (r ^ 2 + distance ^ 2 + 2 * r * distance * mu);
        let mu' = (mu * r + distance) / new_r;
        Some (doppler_factor, new_r, mu', js', nubars')
      })"

subsection \<open>Distances (lines 302-352)\<close>

text \<open>
  Line 304 in binary64, one rounding for every operation (\<^verbatim>\<open>x ** 2\<close> is \<^verbatim>\<open>pow(x, 2)\<close>, the
  rounded square). First the argument of \<^verbatim>\<open>sqrt\<close>, then the distance. The square root of
  a negative number is a NaN.
\<close>

definition discriminant2outer :: "real \<Rightarrow> real \<Rightarrow> real \<Rightarrow> real option" where
  "discriminant2outer r mu r_outer =
     do {
       r_outer2 \<leftarrow> f64 (r_outer ^ 2);
       mu2 \<leftarrow> f64 (mu ^ 2);
       mu2m1 \<leftarrow> f64 (mu2 - 1);
       r2 \<leftarrow> f64 (r ^ 2);
       scaled \<leftarrow> f64 (mu2m1 * r2);
       f64 (r_outer2 + scaled)
     }"

definition compute_distance2outer :: "real \<Rightarrow> real \<Rightarrow> real \<Rightarrow> real option" where
  "compute_distance2outer r mu r_outer =
     do {
       disc \<leftarrow> discriminant2outer r mu r_outer;
       root \<leftarrow> (if disc < 0 then None else f64 (sqrt disc));
       rmu \<leftarrow> f64 (r * mu);
       f64 (root - rmu)
     }"

text \<open>
  The distance to the outer boundary in the words of the specification, in exact
  arithmetic: \<open>d_out = sqrt (r_out\<^sup>2 + (mu\<^sup>2 - 1) r\<^sup>2) - r mu\<close>.
\<close>

definition d_out_spec :: "real \<Rightarrow> real \<Rightarrow> real \<Rightarrow> real" where
  "d_out_spec r mu r_out = sqrt (r_out ^ 2 + (mu ^ 2 - 1) * r ^ 2) - r * mu"

definition compute_distance2inner :: "real \<Rightarrow> real \<Rightarrow> real \<Rightarrow> real" where
  "compute_distance2inner r mu r_inner =
     (let check = r_inner ^ 2 + (r ^ 2 * (mu ^ 2 - 1)) in
      if check < 0 then miss_distance
      else if mu < 0 then - r * mu - sqrt check
      else miss_distance)"

text \<open>
  The first component of the result tells whether the block of \<^verbatim>\<open>print\<close> statements under
  \<^verbatim>\<open>if comov_nu < nu_line\<close> ran; the second is the value returned. The arguments
  \<^verbatim>\<open>last_line\<close> and \<^verbatim>\<open>next_line\<close> are the neighbouring table entries, which are only printed:
  they are passed as the result of the read, \<open>None\<close> beyond the table.
\<close>

definition compute_distance2line ::
  "real \<Rightarrow> real \<Rightarrow> real \<Rightarrow> real \<Rightarrow> real \<Rightarrow> real \<Rightarrow> real option \<Rightarrow> real option \<Rightarrow> int
     \<Rightarrow> bool \<times> real" where
  "compute_distance2line r mu nu nu_line t_exp inverse_t_exp last_line next_line cur_zone_id =
     (let doppler_factor = 1 - mu * r * inverse_t_exp * inverse_c;
          comov_nu = nu * doppler_factor
      in (comov_nu < nu_line, ((comov_nu - nu_line) / nu) * c * t_exp))"

definition compute_distance2electron :: "real \<Rightarrow> real \<Rightarrow> real \<Rightarrow> real \<Rightarrow> real" where
  "compute_distance2electron r mu tau_event inverse_ne =
     tau_event * inverse_ne * inverse_sigma_thomson"

subsection \<open>The dispatch of the event loop (lines 612, 641, 664, 710)\<close>

text \<open>
  The four branches of the \<^verbatim>\<open>if\<close>/\<^verbatim>\<open>elif\<close> chain of the event loop, in the order of the
  source. The chain has no \<^verbatim>\<open>else\<close>: when no condition holds, the loop body ends without
  running a handler, which is the result \<open>None\<close>.
\<close>

datatype handler = OUTER | INNER | ELECTRON | LINE

definition select_handler :: "real \<Rightarrow> real \<Rightarrow> real \<Rightarrow> real \<Rightarrow> handler option" where
  "select_handler d_outer d_inner d_electron d_line =
     (if (d_outer < d_inner) \<and> (d_outer < d_electron) \<and> (d_outer < d_line) then Some OUTER
      else if (d_inner < d_outer) \<and> (d_inner < d_electron) \<and> (d_inner < d_line) then Some INNER
      else if (d_electron < d_outer) \<and> (d_electron < d_inner) \<and> (d_electron < d_line)
        then Some ELECTRON
      else if (d_line < d_outer) \<and> (d_line < d_inner) \<and> (d_line < d_electron) then Some LINE
      else None)"

subsection \<open>macro\_atom (lines 233-262)\<close>

text \<open>\<^verbatim>\<open>rk_double(&mt_state)\<close>: the next number of the sequence, and the advanced state.\<close>

definition rk_double :: "(nat \<Rightarrow> real) \<Rightarrow> nat \<Rightarrow> real \<times> nat" where
  "rk_double draws mt_state = (draws mt_state, Suc mt_state)"

text \<open>
  The inner \<^verbatim>\<open>while True\<close> of \<^verbatim>\<open>macro_atom\<close>: it adds up \<^verbatim>\<open>p_transition\<close> from slot \<open>i\<close> on and
  stops at the first slot where the sum exceeds \<open>event_random\<close>. Running off the end of
  \<^verbatim>\<open>p_transition\<close> is a read outside the array.
\<close>

function macro_atom_block ::
  "real list \<Rightarrow> int \<Rightarrow> int \<Rightarrow> real \<Rightarrow> int \<Rightarrow> real \<Rightarrow> int option" where
  "macro_atom_block p_transition p_transition_nd cur_zone_id event_random i p =
     (case rd p_transition (cur_zone_id * p_transition_nd + i) of
        None \<Rightarrow> None
      | Some v \<Rightarrow>
          if p + v > event_random then Some i
          else macro_atom_block p_transition p_transition_nd cur_zone_id event_random
                 (i + 1) (p + v))"
  by pat_completeness auto
termination
  by (relation "measure (\<lambda>(p_transition, p_transition_nd, cur_zone_id, event_random, i, p).
        nat (int (length p_transition) - (cur_zone_id * p_transition_nd + i)))")
     (auto simp: rd_def split: if_splits)

declare macro_atom_block.simps [simp del]

text \<open>
  The result is the emitted line id together with the generator state. The outer loop
  draws one number for every level it activates.
\<close>

partial_function (option) macro_atom ::
  "int \<Rightarrow> real list \<Rightarrow> int \<Rightarrow> int list \<Rightarrow> int list \<Rightarrow> int list \<Rightarrow> int list \<Rightarrow> int
     \<Rightarrow> (nat \<Rightarrow> real) \<Rightarrow> nat \<Rightarrow> (int \<times> nat) option option" where
  "macro_atom activate_level p_transition p_transition_nd type_transition target_level_id
      target_line_id unroll_reference cur_zone_id draws mt_state =
     (case rk_double draws mt_state of (event_random, mt_state') \<Rightarrow>
      case rd unroll_reference activate_level of
        None \<Rightarrow> Some None
      | Some i0 \<Rightarrow>
         (case macro_atom_block p_transition p_transition_nd cur_zone_id event_random i0 0 of
            None \<Rightarrow> Some None
          | Some i \<Rightarrow>
             (case rd type_transition i of
                None \<Rightarrow> Some None
              | Some emit \<Rightarrow>
                 (case rd target_level_id i of
                    None \<Rightarrow> Some None
                  | Some activate_level' \<Rightarrow>
                      if emit = - 1 then
                        (case rd target_line_id i of
                           None \<Rightarrow> Some None
                         | Some line_id \<Rightarrow> Some (Some (line_id, mt_state')))
                      else macro_atom activate_level' p_transition p_transition_nd
                             type_transition target_level_id target_line_id unroll_reference
                             cur_zone_id draws mt_state'))))"

subsection \<open>StorageModel (lines 46-178)\<close>

text \<open>
  The attributes of the Python object \<^verbatim>\<open>model\<close> that \<^verbatim>\<open>StorageModel.__init__\<close> reads. A
  two-dimensional array is the list of its rows.

  Modelled from the spec: the last field, \<open>macro_atom_data_transition_type\<close>, is the
  column of the atomic data that holds the type code of every transition slot (\<open>-1\<close>
  emission, \<open>0\<close> internal down, positive internal up). The source never reads such a
  column; the specification names it as the one \<^verbatim>\<open>transition_type\<close> should come from.
\<close>

record Model =
  packet_src_packet_nus :: "real list"
  packet_src_packet_mus :: "real list"
  packet_src_packet_energies :: "real list"
  model_no_of_shells :: int
  model_r_inner :: "real list"
  model_r_outer :: "real list"
  model_v_inner :: "real list"
  model_time_explosion :: real
  model_electron_density :: "real list"
  model_line_list_nu :: "real list"
  model_tau_sobolevs :: "real list list"
  model_line_interaction_id :: int
  model_transition_probabilities :: "real list list"
  atom_data_lines_upper2macro_reference_idx :: "int list"
  macro_atom_references_block_references :: "int list"
  macro_atom_data_destination_level_idx :: "int list"
  macro_atom_data_lines_idx :: "int list"
  macro_atom_data_transition_type :: "int list"

text \<open>
  The C attributes of the class: for every array the pointer to its data (the list), not
  the \<^verbatim>\<open>_a\<close> attribute that keeps the NumPy object alive.
\<close>

record StorageModel =
  packet_nus :: "real list"
  packet_mus :: "real list"
  packet_energies :: "real list"
  no_of_packets :: int
  no_of_shells :: int
  r_inner :: "real list"
  r_outer :: "real list"
  v_inner :: "real list"
  time_explosion :: real
  inverse_time_explosion :: real
  electron_density :: "real list"
  inverse_electron_density :: "real option list"
  line_list_nu :: "real list"
  line_lists_tau_sobolevs :: "real list"
  line_lists_tau_sobolevs_nd :: int
  no_of_lines :: int
  line_interaction_id :: int
  transition_probabilities :: "real list"
  transition_probabilities_nd :: int
  line2macro_level_upper :: "int list"
  macro_block_references :: "int list"
  transition_type :: "int list"
  destination_level_id :: "int list"
  transition_line_id :: "int list"
  js :: "real list"
  nubars :: "real list"

text \<open>
  A new extension-type object is zero-filled: numbers are \<open>0\<close> and pointers are \<^verbatim>\<open>NULL\<close>,
  the empty array, whose every read is outside the array.
\<close>

definition StorageModel_new :: StorageModel where
  "StorageModel_new =
     \<lparr> packet_nus = [], packet_mus = [], packet_energies = [], no_of_packets = 0,
       no_of_shells = 0, r_inner = [], r_outer = [], v_inner = [], time_explosion = 0,
       inverse_time_explosion = 0, electron_density = [], inverse_electron_density = [],
       line_list_nu = [], line_lists_tau_sobolevs = [], line_lists_tau_sobolevs_nd = 0,
       no_of_lines = 0, line_interaction_id = 0, transition_probabilities = [],
       transition_probabilities_nd = 0, line2macro_level_upper = [],
       macro_block_references = [], transition_type = [], destination_level_id = [],
       transition_line_id = [], js = [], nubars = [] \<rparr>"

text \<open>
  The assignments of \<^verbatim>\<open>__init__\<close> in the order of the source. Line 163 takes
  \<^verbatim>\<open>transition_type\<close> from \<^verbatim>\<open>macro_atom_references['block_references']\<close>, and line 171
  assigns the data of \<^verbatim>\<open>transition_line_id_a\<close> to \<^verbatim>\<open>self.destination_level_id\<close> a second
  time, so that \<^verbatim>\<open>self.transition_line_id\<close> is never assigned.

  Line 122, \<^verbatim>\<open>1 / model.time_explosion\<close>, is a Python division and raises
  \<^verbatim>\<open>ZeroDivisionError\<close> at zero. Line 128, \<^verbatim>\<open>1 / electron_density\<close>, is a NumPy division:
  for a zero density it gives an infinity, which is the entry \<open>None\<close> of
  \<open>inverse_electron_density\<close>.
\<close>

datatype py_exception = ZeroDivisionError

definition StorageModel_fill :: "Model \<Rightarrow> StorageModel" where
  "StorageModel_fill model =
     (let self = StorageModel_new
        \<lparr> packet_nus := packet_src_packet_nus model,
          packet_mus := packet_src_packet_mus model,
          packet_energies := packet_src_packet_energies model,
          no_of_packets := int (length (packet_src_packet_nus model)),
          no_of_shells := model_no_of_shells model,
          r_inner := model_r_inner model,
          r_outer := model_r_outer model,
          v_inner := model_v_inner model,
          time_explosion := model_time_explosion model,
          inverse_time_explosion := 1 / model_time_explosion model,
          electron_density := model_electron_density model,
          inverse_electron_density :=
            map (\<lambda>ne. if ne = 0 then None else Some (1 / ne)) (model_electron_density model),
          line_list_nu := model_line_list_nu model,
          no_of_lines := int (length (model_line_list_nu model)),
          line_lists_tau_sobolevs := concat (model_tau_sobolevs model),
          line_lists_tau_sobolevs_nd := int (length (model_tau_sobolevs model)),
          line_interaction_id := model_line_interaction_id model \<rparr>;
          self =
            (if model_line_interaction_id model \<ge> 1 then
               self
               \<lparr> transition_probabilities := concat (model_transition_probabilities model),
                 transition_probabilities_nd :=
                   int (length (model_transition_probabilities model)),
                 line2macro_level_upper := atom_data_lines_upper2macro_reference_idx model,
                 macro_block_references := macro_atom_references_block_references model,
                 transition_type := macro_atom_references_block_references model,
                 destination_level_id := macro_atom_data_destination_level_idx model,
                 destination_level_id := macro_atom_data_lines_idx model \<rparr>
             else self)
      in self
        \<lparr> js := replicate (nat (model_no_of_shells model)) 0,
          nubars := replicate (nat (model_no_of_shells model)) 0 \<rparr>)"

definition StorageModel_init :: "Model \<Rightarrow> py_exception + StorageModel" where
  "StorageModel_init model =
     (if model_time_explosion model = 0 then Inl ZeroDivisionError
      else Inr (StorageModel_fill model))"

subsection \<open>The state of a packet in flight\<close>

text \<open>
  Everything \<^verbatim>\<open>montecarlo_one_packet\<close> can read or write: the storage (of which it writes
  \<^verbatim>\<open>js\<close> and \<^verbatim>\<open>nubars\<close> only), the generator state, the variables of the driver it receives
  by pointer (\<open>current_nu\<close> to \<open>recently_crossed_boundary\<close>) and those of its own variables
  that keep their value from one loop iteration to the next.
\<close>

record state =
  storage :: StorageModel
  mt_state :: nat
  current_nu :: real
  current_energy :: real
  current_mu :: real
  current_shell_id :: int
  current_r :: real
  comov_current_nu :: real
  current_line_id :: int
  last_line :: int
  close_line :: int
  recently_crossed_boundary :: int
  emission_line_id :: int
  tau_event :: real
  d_inner :: real
  d_outer :: real
  d_line :: real
  d_electron :: real
  reabsorbed :: int
  nu_line :: real

datatype step = Continue state | Break state

subsection \<open>Computing the four distances (lines 535-577)\<close>

definition compute_distances :: "state \<Rightarrow> state option" where
  "compute_distances s =
     do {
       nu_line' \<leftarrow>
         (if last_line s = 0 then rd (line_list_nu (storage s)) (current_line_id s)
          else Some (nu_line s));
       let s1 = s\<lparr>nu_line := nu_line'\<rparr>;
       if close_line s1 = 1 then Some (s1\<lparr>d_line := 0, close_line := 0\<rparr>)
       else do {
         d_inner' \<leftarrow>
           (if recently_crossed_boundary s1 = 1 then Some miss_distance
            else do {
              r_in \<leftarrow> rd (r_inner (storage s1)) (current_shell_id s1);
              Some (compute_distance2inner (current_r s1) (current_mu s1) r_in)
            });
         r_out \<leftarrow> rd (r_outer (storage s1)) (current_shell_id s1);
         d_outer' \<leftarrow> compute_distance2outer (current_r s1) (current_mu s1) r_out;
         let d_line' =
           (if last_line s1 = 1 then miss_distance
            else snd (compute_distance2line (current_r s1) (current_mu s1) (current_nu s1)
                   (nu_line s1) (time_explosion (storage s1))
                   (inverse_time_explosion (storage s1))
                   (rd (line_list_nu (storage s1)) (current_line_id s1 - 1))
                   (rd (line_list_nu (storage s1)) (current_line_id s1 + 1))
                   (current_shell_id s1)));
         inverse_ne_entry \<leftarrow>
           rd (inverse_electron_density (storage s1)) (current_shell_id s1);
         inverse_ne \<leftarrow> inverse_ne_entry;
         let d_electron' =
           compute_distance2electron (current_r s1) (current_mu s1) (tau_event s1) inverse_ne;
         Some (s1\<lparr>d_inner := d_inner', d_outer := d_outer', d_line := d_line',
                   d_electron := d_electron'\<rparr>)
       }
     }"

subsection \<open>The four handlers (lines 612-812)\<close>

text \<open>
  The call \<^verbatim>\<open>move_packet(current_r, current_mu, current_nu[0], current_energy[0], distance,
  storage.js, storage.nubars, storage.inverse_time_explosion, current_shell_id[0])\<close>, which
  every handler makes with its own distance.
\<close>

definition move_packet_call :: "state \<Rightarrow> real \<Rightarrow> (real \<times> state) option" where
  "move_packet_call s distance =
     do {
       (doppler_factor, r', mu', js', nubars') \<leftarrow>
         move_packet (current_r s) (current_mu s) (current_nu s) (current_energy s) distance
           (js (storage s)) (nubars (storage s)) (inverse_time_explosion (storage s))
           (current_shell_id s);
       Some (doppler_factor,
             s\<lparr>current_r := r', current_mu := mu',
               storage := (storage s)\<lparr>js := js', nubars := nubars'\<rparr>\<rparr>)
     }"

definition outer_event :: "state \<Rightarrow> step option" where
  "outer_event s =
     do {
       (doppler_factor, s1) \<leftarrow> move_packet_call s (d_outer s);
       Some (if current_shell_id s1 < no_of_shells (storage s1) - 1
             then Continue (s1\<lparr>current_shell_id := current_shell_id s1 + 1,
                               recently_crossed_boundary := 1\<rparr>)
             else Break (s1\<lparr>reabsorbed := 0\<rparr>))
     }"

definition inner_event :: "state \<Rightarrow> step option" where
  "inner_event s =
     do {
       (doppler_factor, s1) \<leftarrow> move_packet_call s (d_inner s);
       Some (if current_shell_id s1 > 0
             then Continue (s1\<lparr>current_shell_id := current_shell_id s1 - 1,
                               recently_crossed_boundary := - 1\<rparr>)
             else Break (s1\<lparr>reabsorbed := 1\<rparr>))
     }"

definition electron_event :: "(nat \<Rightarrow> real) \<Rightarrow> state \<Rightarrow> state option" where
  "electron_event draws s =
     do {
       (doppler_factor, s1) \<leftarrow> move_packet_call s (d_electron s);
       let comov_nu = current_nu s1 * doppler_factor;
       let comov_energy = current_energy s1 * doppler_factor;
       let (u1, mt1) = rk_double draws (mt_state s1);
       let s2 = s1\<lparr>current_mu := 2 * u1 - 1, mt_state := mt1\<rparr>;
       let inverse_doppler_factor =
         1 / (1 - (current_mu s2 * current_r s2 * inverse_time_explosion (storage s2)
                    * inverse_c));
       let s3 = s2\<lparr>current_nu := comov_nu * inverse_doppler_factor,
                    current_energy := comov_energy * inverse_doppler_factor\<rparr>;
       let (u2, mt2) = rk_double draws (mt_state s3);
       Some (s3\<lparr>tau_event := - ln u2, mt_state := mt2, recently_crossed_boundary := 0\<rparr>)
     }"

text \<open>
  Lines 765-776: the emitted line and the generator state. When \<^verbatim>\<open>line_interaction_id\<close> is
  negative neither branch assigns \<^verbatim>\<open>emission_line_id\<close>, which keeps its old value.
\<close>

definition choose_emission_line :: "(nat \<Rightarrow> real) \<Rightarrow> state \<Rightarrow> (int \<times> nat) option option" where
  "choose_emission_line draws s =
     (if line_interaction_id (storage s) = 0 then Some (Some (current_line_id s, mt_state s))
      else if line_interaction_id (storage s) \<ge> 1 then
        (case rd (line2macro_level_upper (storage s)) (current_line_id s) of
           None \<Rightarrow> Some None
         | Some activate_level_id \<Rightarrow>
             macro_atom activate_level_id
               (transition_probabilities (storage s))
               (transition_probabilities_nd (storage s))
               (transition_type (storage s))
               (destination_level_id (storage s))
               (transition_line_id (storage s))
               (macro_block_references (storage s))
               (current_shell_id s) draws (mt_state s))
      else Some (Some (emission_line_id s, mt_state s)))"

text \<open>Lines 755-792: the branch \<^verbatim>\<open>tau_event < tau_combined\<close> of the line handler.\<close>

definition line_interaction :: "(nat \<Rightarrow> real) \<Rightarrow> state \<Rightarrow> state option option" where
  "line_interaction draws s =
     (case move_packet_call s (d_line s) of
        None \<Rightarrow> Some None
      | Some (old_doppler_factor, s1) \<Rightarrow>
          let comov_current_energy = current_energy s1 * old_doppler_factor;
              (u1, mt1) = rk_double draws (mt_state s1);
              s2 = s1\<lparr>current_mu := 2 * u1 - 1, mt_state := mt1\<rparr>;
              inverse_doppler_factor =
                1 / (1 - (current_mu s2 * current_r s2 * inverse_time_explosion (storage s2)
                           * inverse_c))
          in case choose_emission_line draws s2 of
               None \<Rightarrow> None
             | Some None \<Rightarrow> Some None
             | Some (Some (line_id, mt2)) \<Rightarrow>
                 (case rd (line_list_nu (storage s2)) line_id of
                    None \<Rightarrow> Some None
                  | Some nu_emission \<Rightarrow>
                      let (u2, mt3) = rk_double draws mt2
                      in Some (Some (s2\<lparr>emission_line_id := line_id,
                                         current_nu := nu_emission * inverse_doppler_factor,
                                         nu_line := nu_emission,
                                         current_line_id := line_id + 1,
                                         current_energy :=
                                           comov_current_energy * inverse_doppler_factor,
                                         tau_event := - ln u2,
                                         mt_state := mt3,
                                         recently_crossed_boundary := 0\<rparr>))))"

text \<open>
  Line 811 calls \<^verbatim>\<open>abs\<close>, which line 25 declares under \<^verbatim>\<open>math.h\<close> with a float argument
  and result. The C function of that name is \<^verbatim>\<open>int abs(int)\<close>: the difference of the two
  frequencies is converted to a 32-bit \<^verbatim>\<open>int\<close>, towards zero, and the result of \<^verbatim>\<open>abs\<close> is
  converted back. C leaves a conversion outside the range of \<^verbatim>\<open>int\<close>, and \<^verbatim>\<open>abs\<close> of the
  smallest \<^verbatim>\<open>int\<close>, undefined; the model takes what the compiled kernel computes on
  x86-64, the smallest \<^verbatim>\<open>int\<close> in both cases.
\<close>

definition c_int_of_double :: "real \<Rightarrow> int" where
  "c_int_of_double x =
     (let n = (if 0 \<le> x then \<lfloor>x\<rfloor> else \<lceil>x\<rceil>)
      in if - (2 ^ 31) \<le> n \<and> n < 2 ^ 31 then n else - (2 ^ 31))"

definition c_abs :: "int \<Rightarrow> int" where
  "c_abs n = (if n = - (2 ^ 31) then - (2 ^ 31) else \<bar>n\<bar>)"

text \<open>Lines 810-812.\<close>

definition close_line_check :: "state \<Rightarrow> state option" where
  "close_line_check s =
     (if last_line s = 0 then
        do {
          nu_next \<leftarrow> rd (line_list_nu (storage s)) (current_line_id s);
          Some (if real_of_int (c_abs (c_int_of_double (nu_next - nu_line s))) / nu_line s
                     < 1 / 10 ^ 7
                then s\<lparr>close_line := 1\<rparr>
                else s)
        }
      else Some s)"

definition line_event :: "(nat \<Rightarrow> real) \<Rightarrow> state \<Rightarrow> state option option" where
  "line_event draws s =
     (case rd (line_lists_tau_sobolevs (storage s))
             (current_shell_id s * line_lists_tau_sobolevs_nd (storage s) + current_line_id s) of
        None \<Rightarrow> Some None
      | Some tau_line \<Rightarrow>
         (case rd (electron_density (storage s)) (current_shell_id s) of
            None \<Rightarrow> Some None
          | Some ne \<Rightarrow>
              let tau_electron = sigma_thomson * ne * d_line s;
                  tau_combined = tau_line + tau_electron;
                  s1 = s\<lparr>current_line_id := current_line_id s + 1\<rparr>;
                  s2 = (if current_line_id s1 \<ge> no_of_lines (storage s1)
                        then s1\<lparr>current_line_id := no_of_lines (storage s1), last_line := 1\<rparr>
                        else s1)
              in case (if tau_event s2 < tau_combined then line_interaction draws s2
                       else Some (Some (s2\<lparr>tau_event := tau_event s2 - tau_line\<rparr>))) of
                   None \<Rightarrow> None
                 | Some None \<Rightarrow> Some None
                 | Some (Some s3) \<Rightarrow> Some (close_line_check s3)))"

subsection \<open>The event loop (lines 496-821)\<close>

text \<open>One pass through the body of \<^verbatim>\<open>while True\<close>.\<close>

definition one_iteration :: "(nat \<Rightarrow> real) \<Rightarrow> state \<Rightarrow> step option option" where
  "one_iteration draws s =
     (case compute_distances s of
        None \<Rightarrow> Some None
      | Some s1 \<Rightarrow>
         (case select_handler (d_outer s1) (d_inner s1) (d_electron s1) (d_line s1) of
            Some OUTER \<Rightarrow> Some (outer_event s1)
          | Some INNER \<Rightarrow> Some (inner_event s1)
          | Some ELECTRON \<Rightarrow> Some (map_option Continue (electron_event draws s1))
          | Some LINE \<Rightarrow> map_option (map_option Continue) (line_event draws s1)
          | None \<Rightarrow> Some (Some (Continue s1))))"

partial_function (option) event_loop :: "(nat \<Rightarrow> real) \<Rightarrow> state \<Rightarrow> state option option" where
  "event_loop draws s =
     (case one_iteration draws s of
        None \<Rightarrow> None
      | Some None \<Rightarrow> Some None
      | Some (Some (Break s')) \<Rightarrow> Some (Some s')
      | Some (Some (Continue s')) \<Rightarrow> event_loop draws s')"

text \<open>
  Lines 499-527: the function starts with its own variables at zero and draws
  \<^verbatim>\<open>tau_event\<close>.
\<close>

definition one_packet_start :: "(nat \<Rightarrow> real) \<Rightarrow> state \<Rightarrow> state" where
  "one_packet_start draws s =
     (let s0 = s\<lparr>emission_line_id := 0, tau_event := 0, d_inner := 0, d_outer := 0,
                  d_line := 0, d_electron := 0, reabsorbed := 0, nu_line := 0\<rparr>;
          (u, mt1) = rk_double draws (mt_state s0)
      in s0\<lparr>tau_event := - ln u, mt_state := mt1\<rparr>)"

text \<open>
  It then runs the loop and returns \<^verbatim>\<open>reabsorbed\<close>; the model returns the state with it.
\<close>

definition montecarlo_one_packet ::
  "(nat \<Rightarrow> real) \<Rightarrow> state \<Rightarrow> int \<Rightarrow> (int \<times> state) option option" where
  "montecarlo_one_packet draws s virtual_particle_flag =
     map_option (map_option (\<lambda>s'. (reabsorbed s', s')))
       (event_loop draws (one_packet_start draws s))"

subsection \<open>The driver (lines 354-489)\<close>

text \<open>
  Lines 446-473: the driver sets up its variables for packet \<open>i\<close>. It does not reset
  \<^verbatim>\<open>close_line\<close>.
\<close>

definition setup_packet :: "state \<Rightarrow> int \<Rightarrow> state option" where
  "setup_packet s i =
     do {
       nu \<leftarrow> rd (packet_nus (storage s)) i;
       energy \<leftarrow> rd (packet_energies (storage s)) i;
       mu \<leftarrow> rd (packet_mus (storage s)) i;
       r \<leftarrow> rd (r_inner (storage s)) 0;
       let s1 = s\<lparr>current_nu := nu, current_energy := energy, current_mu := mu,
                   current_shell_id := 0, current_r := r\<rparr>;
       let s2 = s1\<lparr>comov_current_nu :=
                     current_nu s1 * (1 - (current_mu s1 * current_r s1
                       * inverse_time_explosion (storage s1) * inverse_c))\<rparr>;
       line_id \<leftarrow> binary_search (line_list_nu (storage s2)) (comov_current_nu s2) 0
                    (no_of_lines (storage s2));
       let s3 = s2\<lparr>current_line_id := line_id\<rparr>;
       let s4 = (if current_line_id s3 = no_of_lines (storage s3) then s3\<lparr>last_line := 1\<rparr>
                 else s3\<lparr>last_line := 0\<rparr>);
       Some (s4\<lparr>recently_crossed_boundary := 1\<rparr>)
     }"

text \<open>Lines 478-484: the two output arrays after the packet has ended.\<close>

definition write_output ::
  "int \<Rightarrow> state \<Rightarrow> real list \<Rightarrow> real list \<Rightarrow> int \<Rightarrow> (real list \<times> real list) option" where
  "write_output reabsorbed_flag s output_nus output_energies i =
     (if reabsorbed_flag = 1 then
        do {
          nus \<leftarrow> wr output_nus i (- current_nu s);
          energies \<leftarrow> wr output_energies i (- current_energy s);
          Some (nus, energies)
        }
      else if reabsorbed_flag = 0 then
        do {
          nus \<leftarrow> wr output_nus i (current_nu s);
          energies \<leftarrow> wr output_energies i (current_energy s);
          Some (nus, energies)
        }
      else Some (output_nus, output_energies))"

text \<open>
  The body of \<^verbatim>\<open>for i in range(storage.no_of_packets)\<close>. With \<^verbatim>\<open>cdivision=True\<close> the test
  \<^verbatim>\<open>i % (storage.no_of_packets / 5) == 0\<close> is the C remainder, undefined for fewer than five
  packets, where the divisor is zero.
\<close>

definition montecarlo_radial1d_packet ::
  "(nat \<Rightarrow> real) \<Rightarrow> state \<times> real list \<times> real list \<Rightarrow> int
     \<Rightarrow> (state \<times> real list \<times> real list) option option" where
  "montecarlo_radial1d_packet draws run i =
     (case run of (s, output_nus, output_energies) \<Rightarrow>
        if no_of_packets (storage s) div 5 = 0 then Some None
        else
          (case setup_packet s i of
             None \<Rightarrow> Some None
           | Some s1 \<Rightarrow>
              (case montecarlo_one_packet draws s1 0 of
                 None \<Rightarrow> None
               | Some None \<Rightarrow> Some None
               | Some (Some (reabsorbed_flag, s2)) \<Rightarrow>
                   Some (map_option (\<lambda>(nus, energies). (s2, nus, energies))
                           (write_output reabsorbed_flag s2 output_nus output_energies i)))))"

fun montecarlo_radial1d_loop ::
  "(nat \<Rightarrow> real) \<Rightarrow> int list \<Rightarrow> state \<times> real list \<times> real list
     \<Rightarrow> (state \<times> real list \<times> real list) option option" where
  "montecarlo_radial1d_loop draws [] run = Some (Some run)"
| "montecarlo_radial1d_loop draws (i # rest) run =
     (case montecarlo_radial1d_packet draws run i of
        None \<Rightarrow> None
      | Some None \<Rightarrow> Some None
      | Some (Some run') \<Rightarrow> montecarlo_radial1d_loop draws rest run')"

text \<open>
  The variables of the driver before the first packet; \<open>draws\<close> is the sequence the
  generator hands out from the call on.
\<close>

definition driver_start :: "StorageModel \<Rightarrow> state" where
  "driver_start st =
     \<lparr> storage = st, mt_state = 0, current_nu = 0, current_energy = 0, current_mu = 0,
       current_shell_id = 0, current_r = 0, comov_current_nu = 0, current_line_id = 0,
       last_line = 0, close_line = 0, recently_crossed_boundary = 0, emission_line_id = 0,
       tau_event = 0, d_inner = 0, d_outer = 0, d_line = 0, d_electron = 0, reabsorbed = 0,
       nu_line = 0 \<rparr>"

text \<open>An exception raised by \<^verbatim>\<open>StorageModel(model)\<close> ends the driver.\<close>

definition montecarlo_radial1d ::
  "Model \<Rightarrow> (nat \<Rightarrow> real)
     \<Rightarrow> (py_exception + real list \<times> real list \<times> real list \<times> real list) option option" where
  "montecarlo_radial1d model draws =
     (case StorageModel_init model of
        Inl exception \<Rightarrow> Some (Some (Inl exception))
      | Inr st \<Rightarrow>
          let output_nus = replicate (nat (no_of_packets st)) 0;
              output_energies = replicate (nat (no_of_packets st)) 0
          in map_option (map_option (\<lambda>(s, nus, energies).
                          Inr (nus, energies, js (storage s), nubars (storage s))))
               (montecarlo_radial1d_loop draws (map int [0 ..< nat (no_of_packets st)])
                  (driver_start st, output_nus, output_energies)))"

subsection \<open>Runs of the event loop\<close>

text \<open>
  \<open>iterations draws n s\<close> is the state after \<open>n\<close> passes through the loop body from \<open>s\<close>,
  none of which left the loop; \<open>None\<close> when there is no such run.
\<close>

fun iterations :: "(nat \<Rightarrow> real) \<Rightarrow> nat \<Rightarrow> state \<Rightarrow> state option" where
  "iterations draws 0 s = Some s"
| "iterations draws (Suc n) s =
     (case one_iteration draws s of
        Some (Some (Continue s')) \<Rightarrow> iterations draws n s'
      | _ \<Rightarrow> None)"

subsection \<open>Example inputs\<close>

text \<open>A generator that hands out \<open>1/2\<close> every time.\<close>

definition half_draws :: "nat \<Rightarrow> real" where
  "half_draws n = 1 / 2"

text \<open>
  One shell between \<open>9\<close> and \<open>15\<close> cm, one second after the explosion, resonance
  scattering, five equal packets of frequency \<open>c\<close> Hz that start tangentially (\<open>mu = 0\<close>,
  so that the Doppler factor is \<open>1\<close>). The outer boundary is \<open>sqrt (15\<^sup>2 - 9\<^sup>2) = 12\<close> cm
  away, and the second line, \<open>12\<close> Hz to the red of the packets, comes into resonance after
  \<open>(12 / c) c = 12\<close> cm as well. Every number of the model is a binary64 number, every
  operation on the way to the distance to the boundary is exact in binary64, and the
  rounded quotient \<open>12 / c\<close> times \<open>c\<close> is rounded to \<open>12\<close>.
\<close>

definition tie_model :: Model where
  "tie_model =
     \<lparr> packet_src_packet_nus = replicate 5 29979245800,
       packet_src_packet_mus = replicate 5 0,
       packet_src_packet_energies = replicate 5 1,
       model_no_of_shells = 1,
       model_r_inner = [9],
       model_r_outer = [15],
       model_v_inner = [9],
       model_time_explosion = 1,
       model_electron_density = [1],
       model_line_list_nu = [30000000000, 29979245788],
       model_tau_sobolevs = [[0, 0]],
       model_line_interaction_id = 0,
       model_transition_probabilities = [],
       atom_data_lines_upper2macro_reference_idx = [],
       macro_atom_references_block_references = [],
       macro_atom_data_destination_level_idx = [],
       macro_atom_data_lines_idx = [],
       macro_atom_data_transition_type = [] \<rparr>"

text \<open>
  The first packet of \<open>tie_model\<close> when it enters the loop, and after the distances have
  been computed.
\<close>

definition tie_start :: state where
  "tie_start =
     (driver_start (StorageModel_fill tie_model))
       \<lparr> mt_state := 1, current_nu := 29979245800, current_energy := 1,
         current_mu := 0, current_shell_id := 0, current_r := 9,
         comov_current_nu := 29979245800, current_line_id := 1, last_line := 0,
         recently_crossed_boundary := 1, tau_event := ln 2 \<rparr>"

definition tie_state :: state where
  "tie_state =
     tie_start
       \<lparr> nu_line := 29979245788, d_inner := miss_distance, d_outer := 12,
         d_line := 12, d_electron := ln 2 * inverse_sigma_thomson \<rparr>"

text \<open>
  The same shell with a single line far to the red: the packets are off the red end of
  the line list and leave through the outer boundary.
\<close>

definition escape_model :: Model where
  "escape_model =
     tie_model \<lparr> model_line_list_nu := [10 ^ 10], model_tau_sobolevs := [[0]] \<rparr>"

definition escape_start :: state where
  "escape_start =
     (driver_start (StorageModel_fill escape_model))
       \<lparr> mt_state := 1, current_nu := 29979245800, current_energy := 1,
         current_mu := 0, current_shell_id := 0, current_r := 9,
         comov_current_nu := 29979245800, current_line_id := 1, last_line := 1,
         recently_crossed_boundary := 1, tau_event := ln 2 \<rparr>"

text \<open>
  A shell between \<open>9\<close> and \<open>41\<close> cm with five lines, the second of them optically thick.
  The packet interacts with it after \<open>12\<close> cm, at radius \<open>15\<close>; the generator then hands
  out \<open>0\<close>, which sends the packet radially inwards, and it reaches the inner boundary
  after \<open>6\<close> cm.
\<close>

definition reabsorb_model :: Model where
  "reabsorb_model =
     tie_model
       \<lparr> model_r_outer := [41],
         model_line_list_nu :=
           [30000000000, 29979245788, 29979000000, 29978000000, 29977000000],
         model_tau_sobolevs := [[0, 10 ^ 6, 0, 0, 0]] \<rparr>"

definition reabsorb_draws :: "nat \<Rightarrow> real" where
  "reabsorb_draws n = (if n = 1 then 0 else 1 / 2)"

definition reabsorb_start :: state where
  "reabsorb_start =
     (driver_start (StorageModel_fill reabsorb_model))
       \<lparr> mt_state := 1, current_nu := 29979245800, current_energy := 1,
         current_mu := 0, current_shell_id := 0, current_r := 9,
         comov_current_nu := 29979245800, current_line_id := 1, last_line := 0,
         recently_crossed_boundary := 1, tau_event := ln 2 \<rparr>"

text \<open>The state of that packet after the line interaction.\<close>

definition reabsorb_scattered :: state where
  "reabsorb_scattered =
     reabsorb_start
       \<lparr> storage := (StorageModel_fill reabsorb_model)
           \<lparr> js := [12], nubars := [12 * 29979245800] \<rparr>,
         mt_state := 3,
         current_nu := 29979000000 * (1 / (1 + 15 * inverse_c)),
         current_energy := 1 / (1 + 15 * inverse_c),
         current_mu := - 1, current_r := 15, current_line_id := 3,
         recently_crossed_boundary := 0, emission_line_id := 2, tau_event := ln 2,
         d_inner := miss_distance, d_outer := 40, d_line := 12,
         d_electron := ln 2 * inverse_sigma_thomson, nu_line := 29979000000 \<rparr>"

text \<open>
  A shell between \<open>10\<^sup>1\<^sup>5\<close> and \<open>2 * 10\<^sup>1\<^sup>5\<close> cm, \<open>10\<^sup>6\<close> s after the explosion.
\<close>

definition ejecta_model :: Model where
  "ejecta_model =
     \<lparr> packet_src_packet_nus = replicate 5 2997924580000000,
       packet_src_packet_mus = replicate 5 1,
       packet_src_packet_energies = replicate 5 (1 / 5),
       model_no_of_shells = 1,
       model_r_inner = [10 ^ 15],
       model_r_outer = [2 * 10 ^ 15],
       model_v_inner = [10 ^ 9],
       model_time_explosion = 10 ^ 6,
       model_electron_density = [1],
       model_line_list_nu = [29 * 10 ^ 14, 2797924580000000],
       model_tau_sobolevs = [[0, 0]],
       model_line_interaction_id = 0,
       model_transition_probabilities = [],
       atom_data_lines_upper2macro_reference_idx = [],
       macro_atom_references_block_references = [],
       macro_atom_data_destination_level_idx = [],
       macro_atom_data_lines_idx = [],
       macro_atom_data_transition_type = [] \<rparr>"

text \<open>
  The two-level atom of the specification in macro-atom mode: two lines, one macro level
  with a single transition slot, which is an emission (type \<open>-1\<close>) of line \<open>1\<close> with
  probability one.
\<close>

definition two_level_model :: Model where
  "two_level_model =
     ejecta_model
       \<lparr> model_line_interaction_id := 2,
         model_transition_probabilities := [[1]],
         atom_data_lines_upper2macro_reference_idx := [0, 0],
         macro_atom_references_block_references := [0, 1],
         macro_atom_data_destination_level_idx := [0],
         macro_atom_data_lines_idx := [1],
         macro_atom_data_transition_type := [- 1] \<rparr>"

text \<open>
  A packet of \<open>ejecta_model\<close> at the inner boundary, moving outwards, in a state in which
  the electron-scattering handler is due after \<open>10\<^sup>1\<^sup>4\<close> cm.
\<close>

definition scatter_state :: state where
  "scatter_state =
     (driver_start (StorageModel_fill ejecta_model))
       \<lparr> mt_state := 1, current_nu := 2997924580000000, current_energy := 1 / 5,
         current_mu := 1, current_shell_id := 0, current_r := 10 ^ 15,
         comov_current_nu := 2897924580000000, current_line_id := 1, last_line := 0,
         recently_crossed_boundary := 1, tau_event := ln 2,
         nu_line := 2797924580000000, d_inner := miss_distance, d_outer := 10 ^ 15,
         d_line := 10 ^ 15, d_electron := 10 ^ 14 \<rparr>"

section \<open>Properties\<close>

subsection \<open>Facts about the rounding to binary64\<close>

lemma round_half_even_near:
  assumes "\<bar>y - of_int n\<bar> < 1 / 2"
  shows "round_half_even y = n"
proof -
  have lo: "of_int n - 1 / 2 < y" and hi: "y < of_int n + 1 / 2"
    using assms by linarith+
  show ?thesis
  proof (cases "of_int n \<le> y")
    case True
    have "\<lfloor>y\<rfloor> = n"
      by (rule floor_unique) (use True hi in linarith)+
    moreover have "y - of_int n < 1 / 2" using hi by linarith
    ultimately show ?thesis by (simp add: round_half_even_def)
  next
    case False
    have "real_of_int (n - 1) \<le> y" "y < real_of_int (n - 1) + 1"
      using False lo by simp_all
    then have f: "\<lfloor>y\<rfloor> = n - 1"
      by (rule floor_unique)
    have "y - of_int (n - 1) > 1 / 2" using lo by simp
    with f show ?thesis by (simp add: round_half_even_def)
  qed
qed

lemma round_half_even_of_int [simp]: "round_half_even (of_int n) = n"
  by (rule round_half_even_near) simp

lemma round_half_even_tie:
  assumes "y = of_int n + 1 / 2"
  shows "round_half_even y = (if even n then n else n + 1)"
proof -
  have "\<lfloor>y\<rfloor> = n" using assms by linarith
  then show ?thesis using assms by (simp add: round_half_even_def)
qed

lemma floor_log2_eq:
  assumes "power_int 2 k \<le> \<bar>x\<bar>" "\<bar>x\<bar> < power_int 2 (k + 1)"
  shows "\<lfloor>log 2 \<bar>x\<bar>\<rfloor> = k"
proof -
  have "0 < power_int (2::real) k" by simp
  with assms(1) have pos: "0 < \<bar>x\<bar>" by linarith
  have "(2::real) powr real_of_int k \<le> \<bar>x\<bar>"
    using assms(1) by (simp add: powr_real_of_int')
  moreover have "\<bar>x\<bar> < (2::real) powr real_of_int (k + 1)"
    using assms(2) by (simp only: powr_real_of_int'[of 2, simplified])
  then have "\<bar>x\<bar> < (2::real) powr (real_of_int k + 1)"
    by simp
  ultimately have "(2::real) powr real_of_int k \<le> \<bar>x\<bar>"
    "\<bar>x\<bar> < (2::real) powr (real_of_int k + 1)" by simp_all
  then show ?thesis
    using floor_log_eq_powr_iff[of "\<bar>x\<bar>" 2 k] pos by simp
qed

lemma f64_round_eval:
  assumes "power_int 2 k \<le> \<bar>x\<bar>" "\<bar>x\<bar> < power_int 2 (k + 1)" "- 1022 \<le> k"
  shows "f64_round x = of_int (round_half_even (x / power_int 2 (k - 52))) * power_int 2 (k - 52)"
proof -
  have "0 < power_int (2::real) k" by simp
  with assms(1) have "0 < \<bar>x\<bar>" by linarith
  then have "x \<noteq> 0" by simp
  moreover have "max (k - 52) (- 1074) = k - 52" using assms(3) by simp
  ultimately show ?thesis
    by (simp add: f64_round_def floor_log2_eq[OF assms(1,2)] Let_def)
qed

lemma round_half_even_nonneg: "0 \<le> y \<Longrightarrow> 0 \<le> round_half_even y"
  by (auto simp: round_half_even_def Let_def)

lemma round_half_even_nonpos: "y \<le> 0 \<Longrightarrow> round_half_even y \<le> 0"
proof -
  assume y: "y \<le> 0"
  show ?thesis
  proof (cases "y = 0")
    case True then show ?thesis using round_half_even_of_int[of 0] by simp
  next
    case False
    with y have "\<lfloor>y\<rfloor> \<le> - 1" by (simp add: floor_le_iff)
    then show ?thesis by (auto simp: round_half_even_def Let_def)
  qed
qed

lemma f64_round_nonneg: "0 \<le> x \<Longrightarrow> 0 \<le> f64_round x"
  by (auto simp: f64_round_def Let_def intro!: mult_nonneg_nonneg round_half_even_nonneg)

lemma f64_round_nonpos: "x \<le> 0 \<Longrightarrow> f64_round x \<le> 0"
  by (auto simp: f64_round_def Let_def divide_nonpos_pos
           intro!: mult_nonpos_nonneg round_half_even_nonpos)

lemma f64_nonneg: "f64 x = Some y \<Longrightarrow> 0 \<le> x \<Longrightarrow> 0 \<le> y"
  using f64_round_nonneg[of x] by (auto simp: f64_def Let_def split: if_splits)

lemma f64_nonpos: "f64 x = Some y \<Longrightarrow> x \<le> 0 \<Longrightarrow> y \<le> 0"
  using f64_round_nonpos[of x] by (auto simp: f64_def Let_def split: if_splits)

lemma f64_round_exact:
  assumes x: "x = of_int m * power_int 2 j" and m: "\<bar>m\<bar> < 2 ^ 53" and j: "- 1074 \<le> j"
  shows "f64_round x = x"
proof (cases "m = 0")
  case True
  with x show ?thesis by (simp add: f64_round_def)
next
  case False
  then have x0: "x \<noteq> 0" using x by simp
  define k where "k = \<lfloor>log 2 \<bar>x\<bar>\<rfloor>"
  define e where "e = max (k - 52) (- 1074)"
  have "\<bar>x\<bar> = of_int \<bar>m\<bar> * power_int 2 j"
    using x by (simp add: abs_mult)
  also have "\<dots> < 2 ^ 53 * power_int 2 j"
  proof -
    have "real_of_int \<bar>m\<bar> < 2 ^ 53" using m by (metis of_int_less_numeral_power_cancel_iff)
    then show ?thesis by (simp add: mult_strict_right_mono)
  qed
  also have "\<dots> = power_int 2 (53 + j)"
    by (simp add: power_int_add)
  finally have up: "\<bar>x\<bar> < power_int 2 (53 + j)" .
  have "(2::real) powr real_of_int k \<le> \<bar>x\<bar>"
    using floor_log_eq_powr_iff[of "\<bar>x\<bar>" 2 k] x0 by (simp add: k_def)
  moreover have "\<bar>x\<bar> < (2::real) powr real_of_int (53 + j)"
    using up by (simp only: powr_real_of_int'[of 2, simplified])
  ultimately have "(2::real) powr real_of_int k < 2 powr real_of_int (53 + j)"
    by (rule le_less_trans)
  then have "k < 53 + j" by simp
  then have ej: "e \<le> j" using j by (simp add: e_def)
  have "x / power_int 2 e = of_int m * power_int 2 (j - e)"
    using x by (simp add: power_int_diff)
  also have "\<dots> = of_int (m * 2 ^ nat (j - e))"
    using ej by (simp add: power_int_def)
  finally have q: "x / power_int 2 e = of_int (m * 2 ^ nat (j - e))" .
  have "f64_round x = of_int (round_half_even (x / power_int 2 e)) * power_int 2 e"
    using x0 by (simp add: f64_round_def Let_def e_def k_def)
  also have "\<dots> = x / power_int 2 e * power_int 2 e"
    by (simp only: q round_half_even_of_int)
  also have "\<dots> = x" by simp
  finally show ?thesis .
qed

lemma f64_exact:
  assumes "x = of_int m * power_int 2 j" "\<bar>m\<bar> < 2 ^ 53" "- 1074 \<le> j" "\<bar>x\<bar> < 2 ^ 1024"
  shows "f64 x = Some x"
  using f64_round_exact[OF assms(1-3)] assms(4) by (simp add: f64_def)

lemma f64_small_int:
  assumes "\<bar>m\<bar> < 2 ^ 53"
  shows "f64 (of_int m) = Some (of_int m)"
proof (rule f64_exact[where m = m and j = 0])
  have "\<bar>real_of_int m\<bar> < 2 ^ 53"
    using assms by (metis of_int_abs of_int_less_numeral_power_cancel_iff)
  also have "\<dots> < (2::real) ^ 1024" by simp
  finally show "\<bar>real_of_int m\<bar> < 2 ^ 1024" .
qed (use assms in simp_all)

lemma f64_near:
  assumes "power_int 2 k \<le> \<bar>x\<bar>" "\<bar>x\<bar> < power_int 2 (k + 1)" "- 1022 \<le> k"
    and "\<bar>x / power_int 2 (k - 52) - of_int n\<bar> < 1 / 2"
    and "\<bar>of_int n * power_int 2 (k - 52)\<bar> < (2::real) ^ 1024"
  shows "f64 x = Some (of_int n * power_int 2 (k - 52))"
  using f64_round_eval[OF assms(1-3)] round_half_even_near[OF assms(4)] assms(5)
  by (simp add: f64_def)

lemma f64_tie:
  assumes "power_int 2 k \<le> \<bar>x\<bar>" "\<bar>x\<bar> < power_int 2 (k + 1)" "- 1022 \<le> k"
    and "x / power_int 2 (k - 52) = of_int n + 1 / 2" and "even n"
    and "\<bar>of_int n * power_int 2 (k - 52)\<bar> < (2::real) ^ 1024"
  shows "f64 x = Some (of_int n * power_int 2 (k - 52))"
  using f64_round_eval[OF assms(1-3)] round_half_even_tie[OF assms(4)] assms(5,6)
  by (simp add: f64_def)

lemma round_half_even_bounds:
  "\<lfloor>y\<rfloor> \<le> round_half_even y" "round_half_even y \<le> \<lfloor>y\<rfloor> + 1"
  by (auto simp: round_half_even_def Let_def)

lemma round_half_even_mono:
  assumes "y1 \<le> y2"
  shows "round_half_even y1 \<le> round_half_even y2"
proof (cases "\<lfloor>y1\<rfloor> = \<lfloor>y2\<rfloor>")
  case False
  then have "\<lfloor>y1\<rfloor> + 1 \<le> \<lfloor>y2\<rfloor>"
    using floor_mono[OF assms] by simp
  then show ?thesis
    using round_half_even_bounds(2)[of y1] round_half_even_bounds(1)[of y2] by linarith
next
  case True
  then have "y1 - of_int \<lfloor>y1\<rfloor> \<le> y2 - of_int \<lfloor>y2\<rfloor>"
    using assms by simp
  then show ?thesis
    using True by (auto simp: round_half_even_def Let_def)
qed

lemma round_half_even_le_int:
  assumes "y \<le> of_int n"
  shows "round_half_even y \<le> n"
  using round_half_even_mono[OF assms] by simp

lemma round_half_even_ge_int:
  assumes "of_int n \<le> y"
  shows "n \<le> round_half_even y"
  using round_half_even_mono[OF assms] by simp

lemma round_half_even_minus: "round_half_even (- y) = - round_half_even y"
proof (cases "y = of_int \<lfloor>y\<rfloor>")
  case True
  then obtain n where "y = of_int n" by metis
  then show ?thesis
    using round_half_even_of_int[of "- n"] by simp
next
  case False
  then have lt: "of_int \<lfloor>y\<rfloor> < y" "y < of_int \<lfloor>y\<rfloor> + 1"
    by linarith+
  have c: "real_of_int (- \<lfloor>y\<rfloor> - 1) = - real_of_int \<lfloor>y\<rfloor> - 1"
    by simp
  have "real_of_int (- \<lfloor>y\<rfloor> - 1) \<le> - y" "- y < real_of_int (- \<lfloor>y\<rfloor> - 1) + 1"
    unfolding c using lt by linarith+
  then have fl: "\<lfloor>- y\<rfloor> = - \<lfloor>y\<rfloor> - 1"
    by (rule floor_unique)
  define n where "n = \<lfloor>y\<rfloor>"
  define f where "f = y - of_int n"
  have y: "y = of_int n + f" by (simp add: f_def)
  have f: "0 < f" "f < 1" unfolding f_def n_def using lt by linarith+
  have l: "round_half_even y = (if f < 1 / 2 then n else if f > 1 / 2 then n + 1
                                 else if even n then n else n + 1)"
    by (simp add: round_half_even_def Let_def n_def[symmetric] f_def)
  have r: "round_half_even (- y) = (if 1 - f < 1 / 2 then - n - 1 else if 1 - f > 1 / 2 then - n
                                     else if even (- n - 1) then - n - 1 else - n)"
  proof -
    have fl': "\<lfloor>- y\<rfloor> = - n - 1" using fl by (simp add: n_def)
    have d: "- y - real_of_int (- n - 1) = 1 - f" by (simp add: f_def)
    show ?thesis
      unfolding round_half_even_def Let_def fl' d by simp
  qed
  show ?thesis
    unfolding l r using f by auto
qed

lemma f64_round_minus: "f64_round (- x) = - f64_round x"
  by (simp add: f64_round_def Let_def round_half_even_minus)

lemma floor_log2_bounds:
  assumes "0 < x"
  shows "power_int 2 \<lfloor>log 2 x\<rfloor> \<le> x" "x < power_int 2 (\<lfloor>log 2 x\<rfloor> + 1)"
proof -
  define k where "k = \<lfloor>log 2 x\<rfloor>"
  have "(2::real) powr real_of_int k \<le> x \<and> x < 2 powr (real_of_int k + 1)"
    using floor_log_eq_powr_iff[of x 2 k] assms by (simp add: k_def)
  then have "(2::real) powr real_of_int k \<le> x" "x < 2 powr real_of_int (k + 1)"
    by simp_all
  then show "power_int 2 \<lfloor>log 2 x\<rfloor> \<le> x" "x < power_int 2 (\<lfloor>log 2 x\<rfloor> + 1)"
    unfolding k_def[symmetric] by (simp_all only: powr_real_of_int'[of 2, simplified])
qed

lemma pow2_le: "a \<le> b \<Longrightarrow> power_int (2::real) a \<le> power_int 2 b"
  by (rule power_int_increasing) simp_all

lemma f64_round_pos_mono:
  assumes "0 < x" "x \<le> y"
  shows "f64_round x \<le> f64_round y"
proof -
  have y0: "0 < y" using assms by simp
  define kx where "kx = \<lfloor>log 2 x\<rfloor>"
  define ky where "ky = \<lfloor>log 2 y\<rfloor>"
  define ex where "ex = max (kx - 52) (- 1074)"
  define ey where "ey = max (ky - 52) (- 1074)"
  have k: "kx \<le> ky"
    unfolding kx_def ky_def using assms by (intro floor_mono) simp
  then have e: "ex \<le> ey" by (simp add: ex_def ey_def)
  have rx: "f64_round x = of_int (round_half_even (x / power_int 2 ex)) * power_int 2 ex"
    using assms(1) by (simp add: f64_round_def Let_def ex_def kx_def)
  have ry: "f64_round y = of_int (round_half_even (y / power_int 2 ey)) * power_int 2 ey"
    using y0 by (simp add: f64_round_def Let_def ey_def ky_def)
  show ?thesis
  proof (cases "ex = ey")
    case True
    have "x / power_int 2 ey \<le> y / power_int 2 ey"
      using assms(2) by (simp add: divide_right_mono)
    then have "round_half_even (x / power_int 2 ey) \<le> round_half_even (y / power_int 2 ey)"
      by (rule round_half_even_mono)
    then show ?thesis
      unfolding rx ry True by (simp add: mult_right_mono)
  next
    case False
    with e have lt: "ex < ey" by simp
    then have ey': "ey = ky - 52" by (auto simp: ey_def ex_def)
    have kk: "kx + 1 \<le> ky" using lt ey' by (simp add: ex_def)
    define t where "t = nat (kx + 1 - ex)"
    have t: "kx + 1 - ex \<le> int t" by (simp add: t_def)
    have et: "ex + int t \<le> ky"
      using kk lt ey' by (simp add: t_def)
    have xlt: "x < power_int 2 (kx + 1)"
      using floor_log2_bounds(2)[OF assms(1)] by (simp add: kx_def)
    have "x / power_int 2 ex < power_int 2 (kx + 1) / power_int 2 ex"
      using xlt by (simp add: divide_strict_right_mono)
    also have "\<dots> = power_int 2 (kx + 1 - ex)"
      by (simp add: power_int_diff)
    also have "\<dots> \<le> power_int 2 (int t)"
      using t by (rule pow2_le)
    also have "\<dots> = of_int (2 ^ t)"
      by (simp add: power_int_def)
    finally have "x / power_int 2 ex \<le> of_int (2 ^ t)" by simp
    then have "round_half_even (x / power_int 2 ex) \<le> 2 ^ t"
      by (rule round_half_even_le_int)
    then have "real_of_int (round_half_even (x / power_int 2 ex)) \<le> 2 ^ t"
      by (metis of_int_le_numeral_power_cancel_iff)
    then have "f64_round x \<le> 2 ^ t * power_int 2 ex"
      unfolding rx by (simp add: mult_right_mono)
    also have "\<dots> = power_int 2 (int t) * power_int 2 ex"
      by simp
    also have "\<dots> = power_int 2 (ex + int t)"
      by (simp add: power_int_add mult.commute)
    also have "\<dots> \<le> power_int 2 ky"
      using et by (rule pow2_le)
    finally have up: "f64_round x \<le> power_int 2 ky" .
    have yge: "power_int 2 ky \<le> y"
      using floor_log2_bounds(1)[OF y0] by (simp add: ky_def)
    have "of_int (2 ^ 52) = power_int (2::real) (ky - ey)"
      by (simp add: ey')
    also have "\<dots> = power_int 2 ky / power_int 2 ey"
      by (simp add: power_int_diff)
    also have "\<dots> \<le> y / power_int 2 ey"
      using yge by (simp add: divide_right_mono)
    finally have "2 ^ 52 \<le> round_half_even (y / power_int 2 ey)"
      by (rule round_half_even_ge_int)
    then have "(2::real) ^ 52 \<le> real_of_int (round_half_even (y / power_int 2 ey))"
      by (metis of_int_numeral_le_iff numeral_power_le_of_int_cancel_iff)
    then have "2 ^ 52 * power_int 2 ey \<le> f64_round y"
      unfolding ry by (simp add: mult_right_mono)
    moreover have "2 ^ 52 * power_int (2::real) ey = power_int 2 ky"
      by (simp add: ey' power_int_diff)
    ultimately show ?thesis using up by simp
  qed
qed

lemma f64_round_mono:
  assumes "x \<le> y"
  shows "f64_round x \<le> f64_round y"
proof -
  consider "0 < x" | "x \<le> 0" "0 \<le> y" | "y < 0" using assms by linarith
  then show ?thesis
  proof cases
    case 1
    then show ?thesis using assms by (rule f64_round_pos_mono)
  next
    case 2
    then show ?thesis
      using f64_round_nonpos[of x] f64_round_nonneg[of y] by simp
  next
    case 3
    then have "f64_round (- y) \<le> f64_round (- x)"
      using assms by (intro f64_round_pos_mono) simp_all
    then show ?thesis by (simp add: f64_round_minus)
  qed
qed

lemma f64_round_idem: "f64_round (f64_round x) = f64_round x"
proof (cases "x = 0")
  case True
  then show ?thesis by (simp add: f64_round_def)
next
  case False
  define k where "k = \<lfloor>log 2 \<bar>x\<bar>\<rfloor>"
  define e where "e = max (k - 52) (- 1074)"
  define m where "m = round_half_even (x / power_int 2 e)"
  have r: "f64_round x = of_int m * power_int 2 e"
    using False by (simp add: f64_round_def Let_def e_def k_def m_def)
  have e: "- 1074 \<le> e" "k + 1 \<le> e + 53" by (simp_all add: e_def)
  have "\<bar>x\<bar> < power_int 2 (k + 1)"
    using floor_log2_bounds(2)[of "\<bar>x\<bar>"] False by (simp add: k_def)
  also have "\<dots> \<le> power_int 2 (e + 53)"
    using e(2) by (rule pow2_le)
  also have "\<dots> = 2 ^ 53 * power_int 2 e"
    by (simp add: power_int_add)
  finally have "\<bar>x\<bar> / power_int 2 e < 2 ^ 53"
    by (simp add: pos_divide_less_eq)
  then have "\<bar>x / power_int 2 e\<bar> < 2 ^ 53"
    by (simp add: abs_divide)
  then have "x / power_int 2 e \<le> 2 ^ 53" "- (2 ^ 53) \<le> x / power_int 2 e"
    by linarith+
  then have b: "x / power_int 2 e \<le> of_int (2 ^ 53)" "of_int (- (2 ^ 53)) \<le> x / power_int 2 e"
    by simp_all
  have mb: "m \<le> 2 ^ 53" "- (2 ^ 53) \<le> m"
    unfolding m_def
    using round_half_even_le_int[OF b(1)] round_half_even_ge_int[OF b(2)] by simp_all
  consider "\<bar>m\<bar> < 2 ^ 53" | "m = 2 ^ 53" | "m = - (2 ^ 53)"
    using mb by linarith
  then show ?thesis
  proof cases
    case 1
    show ?thesis
      unfolding r by (rule f64_round_exact[OF refl 1 e(1)])
  next
    case 2
    have "of_int m * power_int (2::real) e = of_int (2 ^ 52) * power_int 2 (e + 1)"
      by (simp add: 2 power_int_add)
    moreover have "f64_round (of_int (2 ^ 52) * power_int 2 (e + 1)) = of_int (2 ^ 52) * power_int 2 (e + 1)"
      by (rule f64_round_exact[OF refl]) (use e(1) in simp_all)
    ultimately show ?thesis unfolding r by simp
  next
    case 3
    have "of_int m * power_int (2::real) e = of_int (- (2 ^ 52)) * power_int 2 (e + 1)"
      by (simp add: 3 power_int_add)
    moreover have "f64_round (of_int (- (2 ^ 52)) * power_int 2 (e + 1)) = of_int (- (2 ^ 52)) * power_int 2 (e + 1)"
      by (rule f64_round_exact[OF refl]) (use e(1) in simp_all)
    ultimately show ?thesis unfolding r by simp
  qed
qed

lemma f64_mono: "f64 x = Some a \<Longrightarrow> f64 y = Some b \<Longrightarrow> x \<le> y \<Longrightarrow> a \<le> b"
  using f64_round_mono[of x y] by (auto simp: f64_def Let_def split: if_splits)

lemma f64_round_minus_one: "f64_round (- 1) = - 1"
  using f64_round_exact[of "- 1" "- 1" 0] by simp

lemma f64_round_zero: "f64_round 0 = 0"
  by (simp add: f64_round_def)

lemma f64_round_one: "f64_round 1 = 1"
  using f64_round_exact[of 1 1 0] by simp

lemma f64_is_round: "f64 x = Some a \<Longrightarrow> a = f64_round x"
  by (auto simp: f64_def Let_def split: if_splits)

lemma f64_round_abs_le:
  assumes "\<bar>x\<bar> \<le> 2 ^ n"
  shows "\<bar>f64_round x\<bar> \<le> 2 ^ n"
proof -
  have p: "f64_round (2 ^ n) = 2 ^ n"
    by (rule f64_round_exact[where m = 1 and j = "int n"]) simp_all
  have "f64_round x \<le> f64_round (2 ^ n)" "f64_round (- (2 ^ n)) \<le> f64_round x"
    using assms by (auto intro!: f64_round_mono)
  then show ?thesis
    by (simp add: p f64_round_minus abs_le_iff)
qed

lemma f64_total:
  assumes "\<bar>x\<bar> \<le> 2 ^ n" "n < 1024"
  shows "\<exists>y. f64 x = Some y \<and> \<bar>y\<bar> \<le> 2 ^ n"
proof -
  have "\<bar>f64_round x\<bar> \<le> 2 ^ n"
    using assms(1) by (rule f64_round_abs_le)
  moreover have "(2::real) ^ n < 2 ^ 1024"
    by (rule power_strict_increasing) (use assms(2) in simp_all)
  ultimately show ?thesis
    by (simp add: f64_def)
qed

lemma f64_numeral: "(numeral n :: int) < 2 ^ 53 \<Longrightarrow> f64 (numeral n) = Some (numeral n)"
  using f64_small_int[of "numeral n"] by simp

lemma f64_neg_numeral:
  "(numeral n :: int) < 2 ^ 53 \<Longrightarrow> f64 (- numeral n) = Some (- numeral n)"
  using f64_small_int[of "- numeral n"] by simp

lemma f64_zero: "f64 0 = Some 0"
  using f64_small_int[of 0] by simp

lemma f64_one: "f64 1 = Some 1"
  using f64_small_int[of 1] by simp

lemma f64_minus_one: "f64 (- 1) = Some (- 1)"
  using f64_small_int[of "- 1"] by simp

lemmas f64_int = f64_numeral f64_neg_numeral f64_zero f64_one f64_minus_one

subsection \<open>Facts about compute\_distance2outer\<close>

lemma discriminant2outer_nonneg:
  fixes r mu r_outer disc :: real
  assumes "0 \<le> r" "r \<le> r_outer" "discriminant2outer r mu r_outer = Some disc"
  shows "0 \<le> disc"
proof -
  from assms(3) obtain r_outer2 mu2 mu2m1 r2 scaled where
    a: "f64 (r_outer ^ 2) = Some r_outer2" and
    b: "f64 (mu ^ 2) = Some mu2" and
    c: "f64 (mu2 - 1) = Some mu2m1" and
    d: "f64 (r ^ 2) = Some r2" and
    e: "f64 (mu2m1 * r2) = Some scaled" and
    f: "f64 (r_outer2 + scaled) = Some disc"
    by (auto simp: discriminant2outer_def split: Option.bind_splits)
  have r2: "r2 = f64_round (r ^ 2)" and ro2: "r_outer2 = f64_round (r_outer ^ 2)"
    using a d by (simp_all add: f64_is_round)
  have "r ^ 2 \<le> r_outer ^ 2" using assms(1,2) by (simp add: power_mono)
  then have le: "r2 \<le> r_outer2" unfolding r2 ro2 by (rule f64_round_mono)
  have r2pos: "0 \<le> r2" unfolding r2 by (rule f64_round_nonneg) simp
  have "0 \<le> mu2" using f64_nonneg[OF b] by simp
  then have "- 1 \<le> mu2 - 1" by simp
  then have "f64_round (- 1) \<le> f64_round (mu2 - 1)" by (rule f64_round_mono)
  then have m1: "- 1 \<le> mu2m1" using f64_is_round[OF c] by (simp add: f64_round_minus_one)
  have "- r2 = - 1 * r2" by simp
  also have "\<dots> \<le> mu2m1 * r2" using m1 r2pos by (rule mult_right_mono)
  finally have "f64_round (- r2) \<le> f64_round (mu2m1 * r2)" by (rule f64_round_mono)
  moreover have "f64_round (- r2) = - r2"
    unfolding r2 by (simp add: f64_round_minus f64_round_idem)
  ultimately have "- r2 \<le> scaled" using f64_is_round[OF e] by simp
  then have "0 \<le> r_outer2 + scaled" using le by simp
  then show ?thesis using f64_nonneg[OF f] by simp
qed

lemma discriminant2outer_total:
  fixes r mu r_outer :: real
  assumes "0 \<le> r" "r \<le> r_outer" "r_outer \<le> 2 ^ 500" "- 1 \<le> mu" "mu \<le> 1"
  shows "\<exists>disc. discriminant2outer r mu r_outer = Some disc \<and> \<bar>disc\<bar> \<le> 2 ^ 1001"
proof -
  have ro: "0 \<le> r_outer" using assms(1,2) by simp
  have "r_outer ^ 2 \<le> (2 ^ 500) ^ 2"
    by (rule power_mono[OF assms(3) ro])
  then have "\<bar>r_outer ^ 2\<bar> \<le> 2 ^ 1000" by simp
  from f64_total[OF this] obtain r_outer2 where
    a: "f64 (r_outer ^ 2) = Some r_outer2" "\<bar>r_outer2\<bar> \<le> 2 ^ 1000" by auto
  have "\<bar>mu\<bar> \<le> 1" using assms(4,5) by (simp add: abs_le_iff)
  then have "mu ^ 2 \<le> 1" by (simp add: abs_square_le_1)
  then have "\<bar>mu ^ 2\<bar> \<le> 2 ^ 0" by simp
  from f64_total[OF this] obtain mu2 where
    b: "f64 (mu ^ 2) = Some mu2" "\<bar>mu2\<bar> \<le> 1" by auto
  have "0 \<le> mu2" using f64_nonneg[OF b(1)] by simp
  with b(2) have "\<bar>mu2 - 1\<bar> \<le> 2 ^ 0" by simp
  from f64_total[OF this] obtain mu2m1 where
    c: "f64 (mu2 - 1) = Some mu2m1" "\<bar>mu2m1\<bar> \<le> 1" by auto
  have "r \<le> 2 ^ 500" using assms(2,3) by simp
  then have "r ^ 2 \<le> (2 ^ 500) ^ 2"
    using assms(1) by (rule power_mono)
  then have "\<bar>r ^ 2\<bar> \<le> 2 ^ 1000" by simp
  from f64_total[OF this] obtain r2 where
    d: "f64 (r ^ 2) = Some r2" "\<bar>r2\<bar> \<le> 2 ^ 1000" by auto
  have "\<bar>mu2m1\<bar> * \<bar>r2\<bar> \<le> 1 * 2 ^ 1000"
    using c(2) d(2) by (intro mult_mono) simp_all
  then have "\<bar>mu2m1 * r2\<bar> \<le> 2 ^ 1000" by (simp add: abs_mult)
  from f64_total[OF this] obtain scaled where
    e: "f64 (mu2m1 * r2) = Some scaled" "\<bar>scaled\<bar> \<le> 2 ^ 1000" by auto
  have "\<bar>r_outer2 + scaled\<bar> \<le> 2 ^ 1001"
    using a(2) e(2) by simp
  from f64_total[OF this] obtain disc where
    f: "f64 (r_outer2 + scaled) = Some disc" "\<bar>disc\<bar> \<le> 2 ^ 1001" by auto
  show ?thesis
    using a(1) b(1) c(1) d(1) e(1) f by (simp add: discriminant2outer_def)
qed

lemma compute_distance2outer_total:
  fixes r mu r_outer :: real
  assumes "0 \<le> r" "r \<le> r_outer" "r_outer \<le> 2 ^ 500" "- 1 \<le> mu" "mu \<le> 1"
  shows "\<exists>disc d. discriminant2outer r mu r_outer = Some disc \<and> 0 \<le> disc
           \<and> compute_distance2outer r mu r_outer = Some d \<and> (mu \<le> 0 \<longrightarrow> 0 \<le> d)"
proof -
  from discriminant2outer_total[OF assms] obtain disc where
    disc: "discriminant2outer r mu r_outer = Some disc" "\<bar>disc\<bar> \<le> 2 ^ 1001" by auto
  have pos: "0 \<le> disc"
    using assms(1,2) disc(1) by (rule discriminant2outer_nonneg)
  have "sqrt disc \<le> sqrt ((2 ^ 501) ^ 2)"
    using disc(2) by (intro real_sqrt_le_mono) simp
  then have "\<bar>sqrt disc\<bar> \<le> 2 ^ 501" using pos by simp
  from f64_total[OF this] obtain root where
    root: "f64 (sqrt disc) = Some root" "\<bar>root\<bar> \<le> 2 ^ 501" by auto
  have root0: "0 \<le> root" using f64_nonneg[OF root(1)] pos by simp
  have "\<bar>mu\<bar> \<le> 1" using assms(4,5) by (simp add: abs_le_iff)
  then have "\<bar>r\<bar> * \<bar>mu\<bar> \<le> 2 ^ 500 * 1"
    using assms(1,2,3) by (intro mult_mono) simp_all
  then have "\<bar>r * mu\<bar> \<le> 2 ^ 501" by (simp add: abs_mult)
  from f64_total[OF this] obtain rmu where
    rmu: "f64 (r * mu) = Some rmu" "\<bar>rmu\<bar> \<le> 2 ^ 501" by auto
  have "\<bar>root - rmu\<bar> \<le> 2 ^ 502"
    using root(2) rmu(2) by simp
  from f64_total[OF this] obtain d where
    d: "f64 (root - rmu) = Some d" by auto
  have "0 \<le> d" if "mu \<le> 0"
  proof -
    have "r * mu \<le> 0" using assms(1) that by (simp add: mult_nonneg_nonpos)
    then have "rmu \<le> 0" using f64_nonpos[OF rmu(1)] by simp
    then have "0 \<le> root - rmu" using root0 by simp
    then show ?thesis using f64_nonneg[OF d] by simp
  qed
  then show ?thesis
    using disc(1) pos root(1) rmu(1) d by (simp add: compute_distance2outer_def)
qed

lemma d_out_spec_nonneg:
  fixes r mu r_out :: real
  assumes "0 \<le> r" "r \<le> r_out" "- 1 \<le> mu" "mu \<le> 1"
  shows "0 \<le> r_out ^ 2 + (mu ^ 2 - 1) * r ^ 2 \<and> 0 \<le> d_out_spec r mu r_out"
proof -
  have sq: "r ^ 2 \<le> r_out ^ 2"
    using assms(1,2) by (simp add: power_mono)
  have "\<bar>mu\<bar> \<le> 1"
    using assms(3,4) by (simp add: abs_le_iff)
  then have mu2: "mu ^ 2 \<le> 1"
    by (simp add: abs_square_le_1)
  have "(1 - mu ^ 2) * r ^ 2 \<le> 1 * r ^ 2"
    by (rule mult_right_mono) simp_all
  then have disc: "r ^ 2 * mu ^ 2 \<le> r_out ^ 2 + (mu ^ 2 - 1) * r ^ 2"
    using sq by (simp add: algebra_simps)
  have disc0: "0 \<le> r_out ^ 2 + (mu ^ 2 - 1) * r ^ 2"
    using disc by (meson order_trans zero_le_mult_iff zero_le_power2)
  have "r * mu \<le> \<bar>r * mu\<bar>" by simp
  also have "\<bar>r * mu\<bar> = sqrt ((r * mu) ^ 2)" by simp
  also have "\<dots> \<le> sqrt (r_out ^ 2 + (mu ^ 2 - 1) * r ^ 2)"
    using disc by (simp add: power_mult_distrib)
  finally show ?thesis
    using disc0 by (simp add: d_out_spec_def)
qed

text \<open>
  At \<open>r = r_outer = 2 * 10\<^sup>1\<^sup>5\<close> and \<open>mu = 1/2\<close>: the square \<open>4 * 10\<^sup>3\<^sup>0\<close> is rounded, three
  quarters of it fall half-way between two binary64 numbers and are rounded to the even
  one, and the root of the difference is one spacing below \<open>10\<^sup>1\<^sup>5\<close>.
\<close>

lemma sq_2e15: "f64 ((2 * 10 ^ 15) ^ 2) = Some (7105427357601002 * 2 ^ 49)"
  using f64_near[of 101 "(2 * 10 ^ 15) ^ 2" 7105427357601002] by simp

lemma quarter: "f64 ((1 / 2) ^ 2) = Some (1 / 4)"
  using f64_exact[of "(1 / 2) ^ 2" 1 "- 2"] by (simp add: power_int_minus_divide power_divide)

lemma minus_three_quarters: "f64 (1 / 4 - 1) = Some (- 3 / 4)"
  using f64_exact[of "1 / 4 - 1" "- 3" "- 2"] by (simp add: power_int_minus_divide)

lemma prod_tie: "f64 (- 3 / 4 * (7105427357601002 * 2 ^ 49)) = Some (- 5329070518200752 * 2 ^ 49)"
  using f64_tie[of 101 "- 3 / 4 * (7105427357601002 * 2 ^ 49)" "- 5329070518200752"] by simp

lemma disc_val: "f64 (7105427357601002 * 2 ^ 49 + - 5329070518200752 * 2 ^ 49) = Some (1776356839400250 * 2 ^ 49)"
  using f64_exact[of "7105427357601002 * 2 ^ 49 + - 5329070518200752 * 2 ^ 49" 1776356839400250 49] by simp

lemma root_val: "f64 (sqrt (1776356839400250 * 2 ^ 49)) = Some (10 ^ 15 - 1 / 8)"
proof -
  let ?D = "1776356839400250 * 2 ^ 49 :: real"
  have lo: "(2::real) ^ 49 \<le> sqrt ?D"
    by (rule real_le_rsqrt) simp
  have hi: "sqrt ?D < (2::real) ^ 50"
    by (rule real_less_lsqrt) simp_all
  have s64: "sqrt (64::real) = 8"
    by (rule real_sqrt_unique) simp_all
  have eight: "sqrt ?D * 8 = sqrt (?D * 64)"
    by (simp only: real_sqrt_mult s64)
  have a: "8 * 10 ^ 15 - 3 / 2 < sqrt (?D * 64)"
    by (rule real_less_rsqrt) (simp add: power2_eq_square)
  have b: "sqrt (?D * 64) < 8 * 10 ^ 15 - 1 / 2"
    by (rule real_less_lsqrt) (simp_all add: power2_eq_square)
  have "f64 (sqrt ?D) = Some (of_int (8 * 10 ^ 15 - 1) * power_int 2 (49 - 52))"
  proof (rule f64_near)
    show "power_int 2 49 \<le> \<bar>sqrt ?D\<bar>" using lo by simp
    show "\<bar>sqrt ?D\<bar> < power_int 2 (49 + 1)" using hi by simp
    have "sqrt ?D / power_int 2 (49 - 52) = sqrt (?D * 64)"
      using eight by (simp add: power_int_minus_divide)
    moreover have "real_of_int (8 * 10 ^ 15 - 1) = 8 * 10 ^ 15 - 1"
      by simp
    moreover have "\<bar>sqrt (?D * 64) - (8 * 10 ^ 15 - 1)\<bar> < 1 / 2"
      using a b by linarith
    ultimately show "\<bar>sqrt ?D / power_int 2 (49 - 52) - of_int (8 * 10 ^ 15 - 1)\<bar> < 1 / 2"
      by (simp only:)
    show "\<bar>of_int (8 * 10 ^ 15 - 1) * power_int 2 (49 - 52)\<bar> < (2::real) ^ 1024"
      by (simp add: power_int_minus_divide)
  qed simp
  then show ?thesis by (simp add: power_int_minus_divide)
qed

lemma rmu_val: "f64 (2 * 10 ^ 15 * (1 / 2)) = Some (10 ^ 15)"
  using f64_small_int[of "10 ^ 15"] by simp

lemma final_val: "f64 (10 ^ 15 - 1 / 8 - 10 ^ 15) = Some (- 1 / 8)"
  using f64_exact[of "10 ^ 15 - 1 / 8 - 10 ^ 15" "- 1" "- 3"] by (simp add: power_int_minus_divide)

lemma discriminant2outer_grazing:
  "discriminant2outer (2 * 10 ^ 15) (1 / 2) (2 * 10 ^ 15) = Some (1776356839400250 * 2 ^ 49)"
  unfolding discriminant2outer_def
  using sq_2e15 quarter minus_three_quarters prod_tie disc_val
  by simp

lemma compute_distance2outer_grazing:
  "compute_distance2outer (2 * 10 ^ 15) (1 / 2) (2 * 10 ^ 15) = Some (- 1 / 8)"
  unfolding compute_distance2outer_def
  using discriminant2outer_grazing root_val rmu_val final_val
  by simp

lemma sqrt_1e30: "sqrt (10 ^ 30) = 10 ^ 15"
  by (rule real_sqrt_unique) simp_all

lemma d_out_spec_grazing: "d_out_spec (2 * 10 ^ 15) (1 / 2) (2 * 10 ^ 15) = 0"
proof -
  have "(2 * 10 ^ 15) ^ 2 + ((1 / 2) ^ 2 - 1) * (2 * 10 ^ 15) ^ 2 = (10 ^ 30 :: real)"
    by (simp add: power_divide)
  then show ?thesis
    unfolding d_out_spec_def by (simp only: sqrt_1e30)
qed

subsection \<open>Facts about binary\_search\<close>

lemma binary_search_bracket:
  assumes "0 \<le> imin" "imin + 1 < imax" "imax \<le> int (length nu)"
    and "x \<le> nu ! nat imin" "nu ! nat (imax - 1) < x"
  shows "\<exists>i. binary_search nu x imin imax = Some i \<and> imin < i \<and> i < imax
           \<and> x \<le> nu ! nat (i - 1) \<and> nu ! nat i < x"
  using assms
proof (induction nu x imin imax rule: binary_search.induct)
  case (1 nu x imin imax)
  show ?case
  proof (cases "imax - imin > 2")
    case False
    with "1.prems" have "imax = imin + 2" by simp
    with "1.prems" False show ?thesis
      by (simp add: add.commute binary_search.simps)
  next
    case True
    define imid where "imid = (imin + imax) div 2"
    have mid: "imin < imid" "imid + 1 < imax"
      using True by (auto simp: imid_def)
    then have r: "rd nu imid = Some (nu ! nat imid)"
      using "1.prems" by (simp add: rd_def)
    show ?thesis
    proof (cases "nu ! nat imid < x")
      case lt: True
      have "\<exists>i. binary_search nu x imin (imid + 1) = Some i \<and> imin < i \<and> i < imid + 1
           \<and> x \<le> nu ! nat (i - 1) \<and> nu ! nat i < x"
        using "1.IH"(1)[OF True imid_def r lt] "1.prems" mid lt by simp
      then show ?thesis using True r lt mid
        by (subst binary_search.simps) (auto simp: imid_def[symmetric] Let_def)
    next
      case ge: False
      have "\<exists>i. binary_search nu x imid imax = Some i \<and> imid < i \<and> i < imax
           \<and> x \<le> nu ! nat (i - 1) \<and> nu ! nat i < x"
        using "1.IH"(2)[OF True imid_def r ge] "1.prems" mid ge by simp
      then show ?thesis using True r ge mid
        by (subst binary_search.simps) (auto simp: imid_def[symmetric] Let_def)
    qed
  qed
qed

lemma strictly_decreasing_nth:
  fixes nu :: "real list"
  assumes "sorted_wrt (>) nu" "j \<le> k" "k < length nu"
  shows "nu ! k \<le> nu ! j"
  using assms by (cases "j = k") (auto simp: sorted_wrt_iff_nth_less less_imp_le)

subsection \<open>Facts about the dispatch and about macro\_atom\<close>

lemma select_handler_strict_minimum:
  fixes d_outer d_inner d_electron d_line :: real
  shows "(select_handler d_outer d_inner d_electron d_line = Some OUTER)
           = (d_outer < d_inner \<and> d_outer < d_electron \<and> d_outer < d_line)"
    and "(select_handler d_outer d_inner d_electron d_line = Some INNER)
           = (d_inner < d_outer \<and> d_inner < d_electron \<and> d_inner < d_line)"
    and "(select_handler d_outer d_inner d_electron d_line = Some ELECTRON)
           = (d_electron < d_outer \<and> d_electron < d_inner \<and> d_electron < d_line)"
    and "(select_handler d_outer d_inner d_electron d_line = Some LINE)
           = (d_line < d_outer \<and> d_line < d_inner \<and> d_line < d_electron)"
  by (auto simp: select_handler_def)

text \<open>
  Whatever tables \<^verbatim>\<open>macro_atom\<close> is handed, a line id it returns is the entry of
  \<^verbatim>\<open>target_line_id\<close> at a slot whose entry in \<^verbatim>\<open>type_transition\<close> is \<open>-1\<close>.
\<close>

lemma macro_atom_returns_emission_slot:
  assumes "macro_atom activate_level p_transition p_transition_nd type_transition
             target_level_id target_line_id unroll_reference cur_zone_id draws m = Some y"
  shows "\<forall>line_id m'. y = Some (line_id, m') \<longrightarrow>
           (\<exists>i. rd type_transition i = Some (- 1) \<and> rd target_line_id i = Some line_id)"
proof (rule macro_atom.raw_induct
    [where P = "\<lambda>lvl p nd tt tl tli ur z d m y. \<forall>line_id m'. y = Some (line_id, m') \<longrightarrow>
           (\<exists>i. rd tt i = Some (- 1) \<and> rd tli i = Some line_id)", OF _ assms])
  fix f :: "int \<Rightarrow> real list \<Rightarrow> int \<Rightarrow> int list \<Rightarrow> int list \<Rightarrow> int list \<Rightarrow> int list \<Rightarrow> int
     \<Rightarrow> (nat \<Rightarrow> real) \<Rightarrow> nat \<Rightarrow> (int \<times> nat) option option"
  fix lvl p nd tt tl tli ur z d m y
  assume IH: "\<And>lvl p nd tt tl tli ur z d m y. f lvl p nd tt tl tli ur z d m = Some y \<Longrightarrow>
         \<forall>line_id m'. y = Some (line_id, m') \<longrightarrow>
           (\<exists>i. rd tt i = Some (- 1) \<and> rd tli i = Some line_id)"
  assume body: "(case rk_double d m of
            (event_random, mt_state') \<Rightarrow>
              case rd ur lvl of None \<Rightarrow> Some None
              | Some i0 \<Rightarrow>
                  case macro_atom_block p nd z event_random i0 0 of
                  None \<Rightarrow> Some None
                  | Some i \<Rightarrow>
                      case rd tt i of None \<Rightarrow> Some None
                      | Some emit \<Rightarrow>
                          case rd tl i of None \<Rightarrow> Some None
                          | Some activate_level' \<Rightarrow>
                              if emit = - 1
                              then case rd tli i of None \<Rightarrow> Some None
                                   | Some line_id \<Rightarrow> Some (Some (line_id, mt_state'))
                              else f activate_level' p nd tt tl tli ur z d mt_state') = Some y"
  show "\<forall>line_id m'. y = Some (line_id, m') \<longrightarrow>
           (\<exists>i. rd tt i = Some (- 1) \<and> rd tli i = Some line_id)"
    using body IH
    by (auto split: prod.splits option.splits if_splits)
qed

subsection \<open>Facts about StorageModel.\_\_init\_\_\<close>

lemma StorageModel_init_zero_time:
  assumes "model_time_explosion model = 0"
  shows "StorageModel_init model = Inl ZeroDivisionError"
  using assms by (simp add: StorageModel_init_def)

lemma StorageModel_init_fill:
  assumes "model_time_explosion model \<noteq> 0"
  shows "StorageModel_init model = Inr (StorageModel_fill model)"
  using assms by (simp add: StorageModel_init_def)

lemma StorageModel_fill_inverse_time_explosion:
  "inverse_time_explosion (StorageModel_fill model)
     = 1 / time_explosion (StorageModel_fill model)"
  by (simp add: StorageModel_fill_def StorageModel_new_def Let_def)

lemma StorageModel_fill_transition_type:
  "transition_type (StorageModel_fill model) = macro_block_references (StorageModel_fill model)"
  by (simp add: StorageModel_fill_def StorageModel_new_def Let_def)

lemma StorageModel_fill_transition_line_id:
  "transition_line_id (StorageModel_fill model) = []"
  by (simp add: StorageModel_fill_def StorageModel_new_def Let_def)

lemma StorageModel_fill_destination_level_id:
  assumes "1 \<le> model_line_interaction_id model"
  shows "destination_level_id (StorageModel_fill model) = macro_atom_data_lines_idx model"
  using assms by (simp add: StorageModel_fill_def StorageModel_new_def Let_def)

text \<open>
  A shell without electrons: the reciprocal of the density is an infinity, and the
  distances of a packet in that shell are outside the model.
\<close>

lemma compute_distances_zero_density:
  assumes "rd (inverse_electron_density (storage s)) (current_shell_id s) = Some None"
    and "close_line s \<noteq> 1"
  shows "compute_distances s = None"
  using assms by (simp add: compute_distances_def Let_def split: Option.bind_split)

text \<open>
  Two lines \<open>3 * 10\<^sup>9\<close> Hz apart: the difference does not fit a 32-bit \<^verbatim>\<open>int\<close>, the
  conversion gives the smallest \<^verbatim>\<open>int\<close>, which \<^verbatim>\<open>abs\<close> returns as it is, and the negative
  quotient is below \<open>10\<^sup>-\<^sup>7\<close>.
\<close>

lemma close_line_check_far_lines:
  assumes "last_line s = 0" "rd (line_list_nu (storage s)) (current_line_id s) = Some (7 * 10 ^ 9)"
    and "nu_line s = 10 ^ 10"
  shows "close_line_check s = Some (s\<lparr>close_line := 1\<rparr>)"
  using assms by (simp add: close_line_check_def c_int_of_double_def c_abs_def)

lemma close_line_check_near_lines:
  assumes "last_line s = 0" "rd (line_list_nu (storage s)) (current_line_id s) = Some (9 * 10 ^ 9)"
    and "nu_line s = 10 ^ 10"
  shows "close_line_check s = Some s"
  using assms by (simp add: close_line_check_def c_int_of_double_def c_abs_def)

subsection \<open>Facts about the event loop\<close>

lemma event_loop_returns_aux:
  assumes "event_loop draws s = Some y"
  shows "\<forall>s'. y = Some s' \<longrightarrow>
          (\<exists>n sl. iterations draws n s = Some sl \<and> one_iteration draws sl = Some (Some (Break s')))"
proof (rule event_loop.raw_induct
    [where P = "\<lambda>draws s y. \<forall>s'. y = Some s' \<longrightarrow>
          (\<exists>n sl. iterations draws n s = Some sl
             \<and> one_iteration draws sl = Some (Some (Break s')))", OF _ assms])
  fix loop :: "(nat \<Rightarrow> real) \<Rightarrow> state \<Rightarrow> state option option"
  fix draws s y
  assume IH: "\<And>d t z. loop d t = Some z \<Longrightarrow> \<forall>s'. z = Some s' \<longrightarrow>
          (\<exists>n sl. iterations d n t = Some sl \<and> one_iteration d sl = Some (Some (Break s')))"
  assume body: "(case one_iteration draws s of None \<Rightarrow> None | Some None \<Rightarrow> Some None
      | Some (Some (Continue s')) \<Rightarrow> loop draws s'
      | Some (Some (Break s')) \<Rightarrow> Some (Some s')) = Some y"
  show "\<forall>s'. y = Some s' \<longrightarrow>
          (\<exists>n sl. iterations draws n s = Some sl \<and> one_iteration draws sl = Some (Some (Break s')))"
  proof (intro allI impI)
    fix s' assume y: "y = Some s'"
    show "\<exists>n sl. iterations draws n s = Some sl \<and> one_iteration draws sl = Some (Some (Break s'))"
    proof (cases "one_iteration draws s")
      case None
      with body show ?thesis by simp
    next
      case (Some a)
      show ?thesis
      proof (cases a)
        case None
        with Some body y show ?thesis by simp
      next
        case inner: (Some st)
        show ?thesis
        proof (cases st)
          case (Break sb)
          with Some inner body y have "one_iteration draws s = Some (Some (Break s'))" by simp
          then have "iterations draws 0 s = Some s \<and> one_iteration draws s = Some (Some (Break s'))"
            by simp
          then show ?thesis by blast
        next
          case (Continue sc)
          with Some inner body have "loop draws sc = Some y" by simp
          from IH[OF this] y obtain n sl where
            "iterations draws n sc = Some sl" "one_iteration draws sl = Some (Some (Break s'))"
            by blast
          then have "iterations draws (Suc n) s = Some sl
                     \<and> one_iteration draws sl = Some (Some (Break s'))"
            using Some inner Continue by simp
          then show ?thesis by blast
        qed
      qed
    qed
  qed
qed

lemma event_loop_returns:
  assumes "event_loop draws s = Some (Some s')"
  shows "\<exists>n sl. iterations draws n s = Some sl \<and> one_iteration draws sl = Some (Some (Break s'))"
  using event_loop_returns_aux[OF assms] by simp

lemma compute_distances_frame:
  assumes "compute_distances s = Some s1"
  shows "current_shell_id s1 = current_shell_id s \<and> storage s1 = storage s
         \<and> current_nu s1 = current_nu s \<and> current_energy s1 = current_energy s"
  using assms
  by (auto simp: compute_distances_def Let_def split: if_splits Option.bind_splits)

lemma move_packet_call_frame:
  assumes "move_packet_call s distance = Some (doppler_factor, s1)"
  shows "current_shell_id s1 = current_shell_id s
         \<and> no_of_shells (storage s1) = no_of_shells (storage s)
         \<and> current_line_id s1 = current_line_id s \<and> last_line s1 = last_line s
         \<and> close_line s1 = close_line s
         \<and> current_nu s1 = current_nu s \<and> current_energy s1 = current_energy s"
  using assms
  by (auto simp: move_packet_call_def split: Option.bind_splits prod.splits)

lemma outer_event_Continue:
  assumes "outer_event s = Some (Continue s')"
  shows "current_shell_id s' = current_shell_id s + 1
         \<and> current_shell_id s < no_of_shells (storage s) - 1
         \<and> no_of_shells (storage s') = no_of_shells (storage s)"
  using assms
  by (auto simp: outer_event_def split: Option.bind_splits prod.splits if_splits
           dest!: move_packet_call_frame)

lemma outer_event_Break:
  assumes "outer_event s = Some (Break s')"
  shows "\<not> current_shell_id s < no_of_shells (storage s) - 1 \<and> reabsorbed s' = 0"
  using assms
  by (auto simp: outer_event_def split: Option.bind_splits prod.splits if_splits
           dest!: move_packet_call_frame)

lemma inner_event_Continue:
  assumes "inner_event s = Some (Continue s')"
  shows "current_shell_id s' = current_shell_id s - 1
         \<and> 0 < current_shell_id s
         \<and> no_of_shells (storage s') = no_of_shells (storage s)"
  using assms
  by (auto simp: inner_event_def split: Option.bind_splits prod.splits if_splits
           dest!: move_packet_call_frame)

lemma inner_event_Break:
  assumes "inner_event s = Some (Break s')"
  shows "\<not> 0 < current_shell_id s \<and> reabsorbed s' = 1"
  using assms
  by (auto simp: inner_event_def split: Option.bind_splits prod.splits if_splits
           dest!: move_packet_call_frame)

lemma electron_event_frame:
  assumes "electron_event draws s = Some s'"
  shows "current_shell_id s' = current_shell_id s
         \<and> no_of_shells (storage s') = no_of_shells (storage s)"
  using assms
  by (auto simp: electron_event_def Let_def rk_double_def split: Option.bind_splits prod.splits
           dest!: move_packet_call_frame)

lemma close_line_check_frame:
  assumes "close_line_check s = Some s'"
  shows "current_shell_id s' = current_shell_id s \<and> storage s' = storage s"
  using assms
  by (auto simp: close_line_check_def split: Option.bind_splits if_splits)

lemma line_interaction_frame:
  assumes "line_interaction draws s = Some (Some s')"
  shows "current_shell_id s' = current_shell_id s
         \<and> no_of_shells (storage s') = no_of_shells (storage s)"
  using assms
  by (auto simp: line_interaction_def Let_def rk_double_def
           split: option.splits prod.splits dest!: move_packet_call_frame)

lemma line_event_frame:
  assumes "line_event draws s = Some (Some s')"
  shows "current_shell_id s' = current_shell_id s
         \<and> no_of_shells (storage s') = no_of_shells (storage s)"
  using assms
  by (auto simp: line_event_def Let_def
           split: option.splits if_splits
           dest!: line_interaction_frame close_line_check_frame)

lemma event_loop_stuck:
  assumes "one_iteration draws s = Some (Some (Continue s))"
  shows "event_loop draws s = None"
proof (rule ccontr)
  assume "event_loop draws s \<noteq> None"
  then obtain y where y: "event_loop draws s = Some y" by auto
  have "one_iteration draws s = Some (Some (Continue s)) \<longrightarrow> False"
    by (rule event_loop.raw_induct[OF _ y]) auto
  with assms show False by simp
qed

lemma one_iteration_Continue_shell:
  assumes "one_iteration draws s = Some (Some (Continue s'))"
  shows "no_of_shells (storage s') = no_of_shells (storage s)
         \<and> (0 \<le> current_shell_id s \<longrightarrow> 0 \<le> current_shell_id s')
         \<and> (current_shell_id s \<le> no_of_shells (storage s) - 1
              \<longrightarrow> current_shell_id s' \<le> no_of_shells (storage s) - 1)"
proof -
  from assms obtain s1 where s1: "compute_distances s = Some s1"
    by (auto simp: one_iteration_def split: option.splits)
  note f = compute_distances_frame[OF s1]
  show ?thesis
  proof (cases "select_handler (d_outer s1) (d_inner s1) (d_electron s1) (d_line s1)")
    case None
    with assms s1 have "s' = s1" by (simp add: one_iteration_def)
    with f show ?thesis by simp
  next
    case (Some h)
    show ?thesis
    proof (cases h)
      case OUTER
      with assms s1 Some have "outer_event s1 = Some (Continue s')"
        by (simp add: one_iteration_def)
      from outer_event_Continue[OF this] f show ?thesis by simp
    next
      case INNER
      with assms s1 Some have "inner_event s1 = Some (Continue s')"
        by (simp add: one_iteration_def)
      from inner_event_Continue[OF this] f show ?thesis by simp
    next
      case ELECTRON
      with assms s1 Some have "electron_event draws s1 = Some s'"
        by (auto simp: one_iteration_def)
      from electron_event_frame[OF this] f show ?thesis by simp
    next
      case LINE
      with assms s1 Some have "line_event draws s1 = Some (Some s')"
        by (auto simp: one_iteration_def)
      from line_event_frame[OF this] f show ?thesis by simp
    qed
  qed
qed

lemma one_iteration_Break:
  assumes "one_iteration draws s = Some (Some (Break s'))"
  shows "\<exists>s1. compute_distances s = Some s1 \<and> current_shell_id s1 = current_shell_id s
           \<and> ((select_handler (d_outer s1) (d_inner s1) (d_electron s1) (d_line s1) = Some OUTER
                \<and> outer_event s1 = Some (Break s')
                \<and> \<not> current_shell_id s < no_of_shells (storage s) - 1 \<and> reabsorbed s' = 0)
              \<or> (select_handler (d_outer s1) (d_inner s1) (d_electron s1) (d_line s1) = Some INNER
                \<and> inner_event s1 = Some (Break s')
                \<and> \<not> 0 < current_shell_id s \<and> reabsorbed s' = 1))"
proof -
  from assms obtain s1 where s1: "compute_distances s = Some s1"
    by (auto simp: one_iteration_def split: option.splits)
  note f = compute_distances_frame[OF s1]
  from assms s1 obtain h where h:
    "select_handler (d_outer s1) (d_inner s1) (d_electron s1) (d_line s1) = Some h"
    by (auto simp: one_iteration_def split: option.splits)
  show ?thesis
  proof (cases h)
    case OUTER
    with assms s1 h have "outer_event s1 = Some (Break s')"
      by (simp add: one_iteration_def)
    with outer_event_Break[OF this] f s1 h OUTER show ?thesis by simp
  next
    case INNER
    with assms s1 h have "inner_event s1 = Some (Break s')"
      by (simp add: one_iteration_def)
    with inner_event_Break[OF this] f s1 h INNER show ?thesis by simp
  next
    case ELECTRON
    with assms s1 h show ?thesis by (auto simp: one_iteration_def)
  next
    case LINE
    with assms s1 h show ?thesis by (auto simp: one_iteration_def)
  qed
qed

lemma iterations_shell:
  assumes "iterations draws n s = Some sl"
    and "0 \<le> current_shell_id s"
    and "current_shell_id s \<le> no_of_shells (storage s) - 1"
  shows "no_of_shells (storage sl) = no_of_shells (storage s)
         \<and> 0 \<le> current_shell_id sl
         \<and> current_shell_id sl \<le> no_of_shells (storage s) - 1"
  using assms
proof (induction n arbitrary: s)
  case 0
  then show ?case by simp
next
  case (Suc n)
  from Suc.prems(1) obtain s1 where
    s1: "one_iteration draws s = Some (Some (Continue s1))" and
    rest: "iterations draws n s1 = Some sl"
    by (auto split: option.splits step.splits)
  from one_iteration_Continue_shell[OF s1] Suc.prems(2,3)
  have "no_of_shells (storage s1) = no_of_shells (storage s)" "0 \<le> current_shell_id s1"
    "current_shell_id s1 \<le> no_of_shells (storage s1) - 1" by simp_all
  with Suc.IH[OF rest] show ?case by simp
qed

lemma setup_packet_frame:
  assumes "setup_packet s i = Some s1"
  shows "current_shell_id s1 = 0 \<and> storage s1 = storage s"
  using assms
  by (auto simp: setup_packet_def Let_def split: Option.bind_splits if_splits)

lemma one_packet_start_frame:
  "current_shell_id (one_packet_start draws s) = current_shell_id s
   \<and> storage (one_packet_start draws s) = storage s"
  by (simp add: one_packet_start_def Let_def rk_double_def)

subsection \<open>Evaluating the examples\<close>

lemma ln_half: "ln (1 / 2 :: real) = - ln 2"
  using ln_inverse[of "2::real"] by (simp add: inverse_eq_divide)

lemma ln2_ge_half: "1 / 2 \<le> ln (2::real)"
  using ln_le_minus_one[of "1 / 2 :: real"] by (simp add: ln_half)

lemma d_electron_far: "10 ^ 15 < ln 2 * inverse_sigma_thomson"
proof -
  have "(10 ^ 15 :: real) < 1 / 2 * inverse_sigma_thomson"
    by (simp add: inverse_sigma_thomson_def sigma_thomson_def)
  also have "\<dots> \<le> ln 2 * inverse_sigma_thomson"
    by (rule mult_right_mono[OF ln2_ge_half]) (simp add: inverse_sigma_thomson_def sigma_thomson_def)
  finally show ?thesis .
qed

lemma sqrt_scatter: "sqrt (121 * 10 ^ 28) = 11 * 10 ^ 14"
  by (rule real_sqrt_unique) simp_all

lemma sqrt_81: "sqrt 81 = 9"
  by (rule real_sqrt_unique) simp_all

lemma sqrt_144: "sqrt 144 = 12"
  by (rule real_sqrt_unique) simp_all

lemma sqrt_225: "sqrt 225 = 15"
  by (rule real_sqrt_unique) simp_all

lemma sqrt_1600: "sqrt 1600 = 40"
  by (rule real_sqrt_unique) simp_all

lemma sqrt_1681: "sqrt 1681 = 41"
  by (rule real_sqrt_unique) simp_all

lemmas example_sqrts = sqrt_81 sqrt_144 sqrt_225 sqrt_1600 sqrt_1681

lemma compute_distance2outer_9_0_15: "compute_distance2outer 9 0 15 = Some 12"
  by (simp add: compute_distance2outer_def discriminant2outer_def f64_int example_sqrts)

lemma compute_distance2outer_9_0_41: "compute_distance2outer 9 0 41 = Some 40"
  by (simp add: compute_distance2outer_def discriminant2outer_def f64_int example_sqrts)

lemma compute_distance2outer_15_m1_41: "compute_distance2outer 15 (- 1) 41 = Some 56"
  by (simp add: compute_distance2outer_def discriminant2outer_def f64_int example_sqrts)

lemmas example_distances =
  compute_distance2outer_9_0_15 compute_distance2outer_9_0_41 compute_distance2outer_15_m1_41

lemmas example_defs =
  driver_start_def StorageModel_fill_def StorageModel_new_def tie_model_def escape_model_def
  reabsorb_model_def ejecta_model_def two_level_model_def half_draws_def reabsorb_draws_def
  rk_double_def rd_def Let_def

text \<open>
  The operations of line 345 on the first packet of \<open>tie_model\<close> in binary64: the
  quotient \<open>12 / c\<close> is rounded, and its product with \<open>c\<close> is rounded back to \<open>12\<close>.
\<close>

lemma tie_line_distance_binary64:
  "f64 (29979245800 - 29979245788) = Some 12
   \<and> f64 (12 / 29979245800) = Some (7742481545883613 / 2 ^ 84)
   \<and> f64 (7742481545883613 / 2 ^ 84 * 29979245800) = Some 12
   \<and> f64 (12 * 1) = Some 12"
proof -
  have a: "f64 (12 / 29979245800) = Some (7742481545883613 / 2 ^ 84)"
    using f64_near[of "- 32" "12 / 29979245800" 7742481545883613]
    by (simp add: power_int_minus_divide)
  have b: "f64 (7742481545883613 / 2 ^ 84 * 29979245800) = Some 12"
    using f64_near[of 3 "7742481545883613 / 2 ^ 84 * 29979245800" 6755399441055744]
    by (simp add: power_int_minus_divide)
  show ?thesis
    using a b by (simp add: f64_int)
qed

lemma tie_init: "StorageModel_init tie_model = Inr (StorageModel_fill tie_model)"
  by (simp add: StorageModel_init_def tie_model_def)

lemma tie_setup:
  "map_option (one_packet_start half_draws)
     (setup_packet (driver_start (StorageModel_fill tie_model)) 0) = Some tie_start"
  by (simp add: tie_start_def setup_packet_def example_defs binary_search.simps
        one_packet_start_def ln_half inverse_c_def c_def)

lemma tie_distances_start: "compute_distances tie_start = Some tie_state"
  unfolding tie_state_def tie_start_def
  by (simp add: compute_distances_def example_defs example_distances
        compute_distance2electron_def compute_distance2line_def inverse_c_def c_def)

lemma tie_distances_again: "compute_distances tie_state = Some tie_state"
  unfolding tie_state_def tie_start_def
  by (simp add: compute_distances_def example_defs example_distances
        compute_distance2electron_def compute_distance2line_def inverse_c_def c_def)

lemma tie_select:
  "select_handler (d_outer tie_state) (d_inner tie_state) (d_electron tie_state)
     (d_line tie_state) = None"
  using d_electron_far by (simp add: tie_state_def select_handler_def miss_distance_def)

lemma tie_first_iteration: "one_iteration half_draws tie_start = Some (Some (Continue tie_state))"
  by (simp add: one_iteration_def tie_distances_start tie_select)

lemma tie_fixed_point: "one_iteration half_draws tie_state = Some (Some (Continue tie_state))"
  by (simp add: one_iteration_def tie_distances_again tie_select)

lemma tie_loop: "event_loop half_draws tie_start = None"
  by (subst event_loop.simps) (simp add: tie_first_iteration event_loop_stuck[OF tie_fixed_point])

lemma tie_one_packet:
  "\<exists>s1. setup_packet (driver_start (StorageModel_fill tie_model)) 0 = Some s1
        \<and> montecarlo_one_packet half_draws s1 0 = None"
proof -
  obtain s1 where s1: "setup_packet (driver_start (StorageModel_fill tie_model)) 0 = Some s1"
    "one_packet_start half_draws s1 = tie_start"
    using tie_setup by auto
  then show ?thesis
    by (simp add: montecarlo_one_packet_def tie_loop)
qed

lemma tie_packet:
  "montecarlo_radial1d_packet half_draws
     (driver_start (StorageModel_fill tie_model), output_nus, output_energies) 0 = None"
proof -
  obtain s1 where s1: "setup_packet (driver_start (StorageModel_fill tie_model)) 0 = Some s1"
    "montecarlo_one_packet half_draws s1 0 = None"
    using tie_one_packet by auto
  have n: "no_of_packets (storage (driver_start (StorageModel_fill tie_model))) = 5"
    by (simp add: example_defs)
  show ?thesis
    by (simp add: montecarlo_radial1d_packet_def n s1)
qed

lemma block_example: "macro_atom_block [1] 1 0 (1 / 2) 0 0 = Some 0"
  by (simp add: macro_atom_block.simps rd_def)

lemma block_example_off: "macro_atom_block [1] 1 0 (1 / 2) 1 0 = None"
  by (simp add: macro_atom_block.simps rd_def)

lemma escape_setup:
  "map_option (one_packet_start half_draws)
     (setup_packet (driver_start (StorageModel_fill escape_model)) 0) = Some escape_start"
  by (simp add: escape_start_def setup_packet_def example_defs binary_search.simps
        one_packet_start_def ln_half inverse_c_def c_def)

lemma escape_distances:
  "compute_distances escape_start
     = Some (escape_start\<lparr>d_inner := miss_distance, d_outer := 12,
               d_line := miss_distance, d_electron := ln 2 * inverse_sigma_thomson\<rparr>)"
  unfolding escape_start_def
  by (simp add: compute_distances_def example_defs example_distances
        compute_distance2electron_def)

lemma escape_select:
  "select_handler 12 miss_distance (ln 2 * inverse_sigma_thomson) miss_distance
     = Some OUTER"
  using d_electron_far by (simp add: select_handler_def miss_distance_def)

lemma escape_outer:
  "\<exists>s2. outer_event (escape_start\<lparr>d_inner := miss_distance, d_outer := 12,
               d_line := miss_distance, d_electron := ln 2 * inverse_sigma_thomson\<rparr>)
          = Some (Break s2)
        \<and> reabsorbed s2 = 0 \<and> current_nu s2 = 29979245800 \<and> current_energy s2 = 1
        \<and> current_r s2 = 15 \<and> js (storage s2) = [12]"
  unfolding escape_start_def
  by (simp add: outer_event_def move_packet_call_def move_packet_def add_at_def example_defs
        example_sqrts)

lemma escape_packet:
  "\<exists>s1 s2. setup_packet (driver_start (StorageModel_fill escape_model)) 0 = Some s1
      \<and> montecarlo_one_packet half_draws s1 0 = Some (Some (0, s2))
      \<and> montecarlo_radial1d_packet half_draws
           (driver_start (StorageModel_fill escape_model), replicate 5 0, replicate 5 0) 0
           = Some (Some (s2, [29979245800, 0, 0, 0, 0], [1, 0, 0, 0, 0]))"
proof -
  let ?d = "driver_start (StorageModel_fill escape_model)"
  obtain s1 where s1: "setup_packet ?d 0 = Some s1"
    "one_packet_start half_draws s1 = escape_start"
    using escape_setup by auto
  obtain s2 where s2:
    "outer_event (escape_start\<lparr>d_inner := miss_distance, d_outer := 12,
               d_line := miss_distance, d_electron := ln 2 * inverse_sigma_thomson\<rparr>)
          = Some (Break s2)"
    "reabsorbed s2 = 0" "current_nu s2 = 29979245800" "current_energy s2 = 1"
    using escape_outer by blast
  have "one_iteration half_draws escape_start = Some (Some (Break s2))"
    using escape_select s2(1) by (simp add: one_iteration_def escape_distances)
  then have "event_loop half_draws escape_start = Some (Some s2)"
    by (subst event_loop.simps) simp
  then have one: "montecarlo_one_packet half_draws s1 0 = Some (Some (0, s2))"
    by (simp add: montecarlo_one_packet_def s1(2) s2(2))
  have n: "no_of_packets (storage ?d) = 5"
    by (simp add: example_defs)
  have "montecarlo_radial1d_packet half_draws (?d, replicate 5 0, replicate 5 0) 0
      = Some (Some (s2, [29979245800, 0, 0, 0, 0], [1, 0, 0, 0, 0]))"
    by (simp add: montecarlo_radial1d_packet_def n s1(1) one write_output_def wr_def s2(3,4)
          eval_nat_numeral)
  with s1(1) one show ?thesis by blast
qed

lemma reabsorb_setup:
  "map_option (one_packet_start reabsorb_draws)
     (setup_packet (driver_start (StorageModel_fill reabsorb_model)) 0) = Some reabsorb_start"
  by (simp add: reabsorb_start_def setup_packet_def example_defs binary_search.simps
        one_packet_start_def ln_half inverse_c_def c_def)

lemma reabsorb_distances:
  "compute_distances reabsorb_start
     = Some (reabsorb_start\<lparr>nu_line := 29979245788, d_inner := miss_distance, d_outer := 40,
               d_line := 12, d_electron := ln 2 * inverse_sigma_thomson\<rparr>)"
  unfolding reabsorb_start_def
  by (simp add: compute_distances_def example_defs example_distances
        compute_distance2electron_def compute_distance2line_def inverse_c_def c_def)

lemma reabsorb_select:
  "select_handler 40 miss_distance (ln 2 * inverse_sigma_thomson) 12 = Some LINE"
  using d_electron_far by (simp add: select_handler_def miss_distance_def)

lemma ln2_lt_tau: "ln 2 < 10 ^ 6 + sigma_thomson * 12"
proof -
  have "ln (2::real) < 2" using ln_less_self[of "2::real"] by simp
  also have "\<dots> < 10 ^ 6 + sigma_thomson * 12" by (simp add: sigma_thomson_def)
  finally show ?thesis .
qed

lemma reabsorb_line:
  "line_event reabsorb_draws
     (reabsorb_start\<lparr>nu_line := 29979245788, d_inner := miss_distance, d_outer := 40,
         d_line := 12, d_electron := ln 2 * inverse_sigma_thomson\<rparr>)
     = Some (Some reabsorb_scattered)"
  unfolding reabsorb_scattered_def reabsorb_start_def
  using ln2_lt_tau
  by (simp add: line_event_def line_interaction_def choose_emission_line_def
        move_packet_call_def move_packet_def add_at_def close_line_check_def
        c_int_of_double_def c_abs_def example_defs example_sqrts ln_half inverse_c_def c_def)

lemma reabsorb_first_iteration:
  "one_iteration reabsorb_draws reabsorb_start = Some (Some (Continue reabsorb_scattered))"
  by (simp add: one_iteration_def reabsorb_distances reabsorb_select reabsorb_line)

lemma reabsorb_distances_again:
  "compute_distances reabsorb_scattered
     = Some (reabsorb_scattered\<lparr>nu_line := 29978000000, d_inner := 6, d_outer := 56,
               d_line := 10 ^ 6 * (c + 15) / 29979000000,
               d_electron := ln 2 * inverse_sigma_thomson\<rparr>)"
  unfolding reabsorb_scattered_def reabsorb_start_def
  by (simp add: compute_distances_def example_defs example_distances example_sqrts
        compute_distance2inner_def compute_distance2electron_def compute_distance2line_def
        inverse_c_def c_def)

lemma reabsorb_select_again:
  "select_handler 56 6 (ln 2 * inverse_sigma_thomson) (10 ^ 6 * (c + 15) / 29979000000)
     = Some INNER"
  using d_electron_far by (simp add: select_handler_def c_def)

lemma reabsorb_inner:
  "\<exists>s2. inner_event (reabsorb_scattered\<lparr>nu_line := 29978000000, d_inner := 6, d_outer := 56,
               d_line := 10 ^ 6 * (c + 15) / 29979000000,
               d_electron := ln 2 * inverse_sigma_thomson\<rparr>)
          = Some (Break s2)
        \<and> reabsorbed s2 = 1
        \<and> current_nu s2 = 29979000000 / (1 + 15 / c)
        \<and> current_energy s2 = 1 / (1 + 15 / c)
        \<and> current_r s2 = 9 \<and> js (storage s2) = [18]"
  unfolding reabsorb_scattered_def reabsorb_start_def
  by (simp add: inner_event_def move_packet_call_def move_packet_def add_at_def example_defs
        example_sqrts inverse_c_def c_def)

lemma reabsorb_packet:
  "\<exists>s1 s2. setup_packet (driver_start (StorageModel_fill reabsorb_model)) 0 = Some s1
      \<and> montecarlo_one_packet reabsorb_draws s1 0 = Some (Some (1, s2))
      \<and> montecarlo_radial1d_packet reabsorb_draws
           (driver_start (StorageModel_fill reabsorb_model), replicate 5 0, replicate 5 0) 0
           = Some (Some (s2, [- (29979000000 / (1 + 15 / c)), 0, 0, 0, 0],
                         [- (1 / (1 + 15 / c)), 0, 0, 0, 0]))"
proof -
  let ?d = "driver_start (StorageModel_fill reabsorb_model)"
  obtain s1 where s1: "setup_packet ?d 0 = Some s1"
    "one_packet_start reabsorb_draws s1 = reabsorb_start"
    using reabsorb_setup by auto
  obtain s2 where s2:
    "inner_event (reabsorb_scattered\<lparr>nu_line := 29978000000, d_inner := 6, d_outer := 56,
               d_line := 10 ^ 6 * (c + 15) / 29979000000,
               d_electron := ln 2 * inverse_sigma_thomson\<rparr>)
          = Some (Break s2)"
    "reabsorbed s2 = 1" "current_nu s2 = 29979000000 / (1 + 15 / c)"
    "current_energy s2 = 1 / (1 + 15 / c)"
    using reabsorb_inner by blast
  have "one_iteration reabsorb_draws reabsorb_scattered = Some (Some (Break s2))"
    using reabsorb_select_again s2(1) by (simp add: one_iteration_def reabsorb_distances_again)
  then have "event_loop reabsorb_draws reabsorb_scattered = Some (Some s2)"
    by (subst event_loop.simps) simp
  then have "event_loop reabsorb_draws reabsorb_start = Some (Some s2)"
    by (subst event_loop.simps) (simp add: reabsorb_first_iteration)
  then have one: "montecarlo_one_packet reabsorb_draws s1 0 = Some (Some (1, s2))"
    by (simp add: montecarlo_one_packet_def s1(2) s2(2))
  have n: "no_of_packets (storage ?d) = 5"
    by (simp add: example_defs)
  have "montecarlo_radial1d_packet reabsorb_draws (?d, replicate 5 0, replicate 5 0) 0
      = Some (Some (s2, [- (29979000000 / (1 + 15 / c)), 0, 0, 0, 0],
                    [- (1 / (1 + 15 / c)), 0, 0, 0, 0]))"
    by (simp add: montecarlo_radial1d_packet_def n s1(1) one write_output_def wr_def s2(3,4)
          eval_nat_numeral)
  with s1(1) one show ?thesis by blast
qed

subsection \<open>The two ways out of the event loop\<close>

text \<open>
  Whenever the body of the driver's loop returns for packet \<open>i\<close> (the model has at least
  one shell), the event loop was left by one of its two \<^verbatim>\<open>break\<close> statements: by the
  inner-boundary handler in shell \<open>0\<close>, with the flag \<open>1\<close>, and the driver has written
  \<open>-nu\<close> and \<open>-E\<close>; or by the outer-boundary handler in the outermost shell, with the flag
  \<open>0\<close>, and the driver has written \<open>nu\<close> and \<open>E\<close>.
\<close>

lemma montecarlo_radial1d_packet_returns:
  fixes output_nus output_energies nus energies :: "real list"
  assumes "montecarlo_radial1d_packet draws (s, output_nus, output_energies) i
             = Some (Some (s2, nus, energies))"
    and "1 \<le> no_of_shells (storage s)"
  shows "\<exists>flag s1 n sl sd.
           setup_packet s i = Some s1
         \<and> montecarlo_one_packet draws s1 0 = Some (Some (flag, s2))
         \<and> iterations draws n (one_packet_start draws s1) = Some sl
         \<and> compute_distances sl = Some sd
         \<and> ((flag = 1
              \<and> select_handler (d_outer sd) (d_inner sd) (d_electron sd) (d_line sd) = Some INNER
              \<and> current_shell_id sd = 0
              \<and> inner_event sd = Some (Break s2)
              \<and> nus = output_nus[nat i := - current_nu s2]
              \<and> energies = output_energies[nat i := - current_energy s2])
            \<or> (flag = 0
              \<and> select_handler (d_outer sd) (d_inner sd) (d_electron sd) (d_line sd) = Some OUTER
              \<and> current_shell_id sd = no_of_shells (storage s) - 1
              \<and> outer_event sd = Some (Break s2)
              \<and> nus = output_nus[nat i := current_nu s2]
              \<and> energies = output_energies[nat i := current_energy s2]))"
proof -
  from assms(1) obtain s1 where s1: "setup_packet s i = Some s1"
    by (auto simp: montecarlo_radial1d_packet_def split: if_splits option.splits)
  from assms(1) s1 obtain flag where
    run: "montecarlo_one_packet draws s1 0 = Some (Some (flag, s2))" and
    out: "write_output flag s2 output_nus output_energies i = Some (nus, energies)"
    by (auto simp: montecarlo_radial1d_packet_def split: if_splits option.splits)
  from run have loop: "event_loop draws (one_packet_start draws s1) = Some (Some s2)"
    and flag: "flag = reabsorbed s2"
    by (auto simp: montecarlo_one_packet_def)
  from event_loop_returns[OF loop] obtain n sl where
    it: "iterations draws n (one_packet_start draws s1) = Some sl" and
    br: "one_iteration draws sl = Some (Some (Break s2))" by blast
  have start: "current_shell_id (one_packet_start draws s1) = 0"
    "no_of_shells (storage (one_packet_start draws s1)) = no_of_shells (storage s)"
    using setup_packet_frame[OF s1] one_packet_start_frame[of draws s1] by simp_all
  from iterations_shell[OF it] start assms(2)
  have sh: "no_of_shells (storage sl) = no_of_shells (storage s)" "0 \<le> current_shell_id sl"
    "current_shell_id sl \<le> no_of_shells (storage s) - 1" by simp_all
  from one_iteration_Break[OF br] obtain sd where
    sd: "compute_distances sl = Some sd" "current_shell_id sd = current_shell_id sl" and
    alt: "(select_handler (d_outer sd) (d_inner sd) (d_electron sd) (d_line sd) = Some OUTER
            \<and> outer_event sd = Some (Break s2)
            \<and> \<not> current_shell_id sl < no_of_shells (storage sl) - 1 \<and> reabsorbed s2 = 0)
          \<or> (select_handler (d_outer sd) (d_inner sd) (d_electron sd) (d_line sd) = Some INNER
            \<and> inner_event sd = Some (Break s2)
            \<and> \<not> 0 < current_shell_id sl \<and> reabsorbed s2 = 1)"
    by blast
  from alt show ?thesis
  proof
    assume o: "select_handler (d_outer sd) (d_inner sd) (d_electron sd) (d_line sd) = Some OUTER
            \<and> outer_event sd = Some (Break s2)
            \<and> \<not> current_shell_id sl < no_of_shells (storage sl) - 1 \<and> reabsorbed s2 = 0"
    then have f0: "flag = 0" using flag by simp
    have shell: "current_shell_id sd = no_of_shells (storage s) - 1"
      using o sh sd(2) by simp
    have "nus = output_nus[nat i := current_nu s2]
          \<and> energies = output_energies[nat i := current_energy s2]"
      using out f0 by (auto simp: write_output_def wr_def split: Option.bind_splits if_splits)
    with s1 run it sd(1) o f0 shell show ?thesis by blast
  next
    assume a: "select_handler (d_outer sd) (d_inner sd) (d_electron sd) (d_line sd) = Some INNER
            \<and> inner_event sd = Some (Break s2)
            \<and> \<not> 0 < current_shell_id sl \<and> reabsorbed s2 = 1"
    then have f1: "flag = 1" using flag by simp
    have shell: "current_shell_id sd = 0"
      using a sh sd(2) by simp
    have "nus = output_nus[nat i := - current_nu s2]
          \<and> energies = output_energies[nat i := - current_energy s2]"
      using out f1 by (auto simp: write_output_def wr_def split: Option.bind_splits if_splits)
    with s1 run it sd(1) a f1 shell show ?thesis by blast
  qed
qed

subsection \<open>C1: LineSearch\<close>

text \<open>
  C1, as stated, fails. \<^verbatim>\<open>binary_search\<close> over the whole table differs from the smallest
  index with \<open>line_list_nu[i] \<le> nu_insert\<close> in three ways: at a frequency equal to a table
  entry it returns the index after that entry (the comparison is \<^verbatim>\<open>nu[imid] < nu_insert\<close>);
  below the reddest entry it returns \<open>L - 1\<close>, not \<open>L\<close>; above the bluest entry it returns
  \<open>1\<close>, not \<open>0\<close>.
\<close>

theorem C1_binary_search_counterexample:
  "binary_search [10, 5, 1] 5 0 3 = Some 2 \<and> LineSearch_spec [10, 5, 1] 5 = 1
   \<and> binary_search [10, 5] 3 0 2 = Some 1 \<and> LineSearch_spec [10, 5] 3 = 2
   \<and> binary_search [10, 5] 20 0 2 = Some 1 \<and> LineSearch_spec [10, 5] 20 = 0"
  by (simp add: binary_search.simps rd_def LineSearch_spec_def)

text \<open>
  C1, amended: for a strictly decreasing table of length \<open>L \<ge> 2\<close> and an insertion frequency
  inside the table, \<open>line_list_nu[L-1] < nu_insert \<le> line_list_nu[0]\<close>, \<^verbatim>\<open>binary_search\<close>
  over the whole table returns the smallest index \<open>i\<close> with \<open>line_list_nu[i] < nu_insert\<close>:
  \<open>1 \<le> i \<le> L - 1\<close>, \<open>line_list_nu[i] < nu_insert\<close>, and \<open>line_list_nu[j] \<ge> nu_insert\<close>
  for all \<open>j < i\<close>. Frequencies outside the table are left open.
\<close>

theorem C1_binary_search_interior:
  fixes line_list_nu :: "real list" and nu_insert :: real
  assumes "sorted_wrt (>) line_list_nu"
    and "2 \<le> length line_list_nu"
    and "line_list_nu ! (length line_list_nu - 1) < nu_insert"
    and "nu_insert \<le> line_list_nu ! 0"
  shows "\<exists>i. binary_search line_list_nu nu_insert 0 (int (length line_list_nu)) = Some (int i)
           \<and> 1 \<le> i \<and> i < length line_list_nu
           \<and> line_list_nu ! i < nu_insert
           \<and> (\<forall>j<i. nu_insert \<le> line_list_nu ! j)"
proof -
  have last: "line_list_nu ! nat (int (length line_list_nu) - 1) < nu_insert"
    using assms(2,3) by (simp add: nat_diff_distrib')
  obtain k where k: "binary_search line_list_nu nu_insert 0 (int (length line_list_nu)) = Some k"
    "0 < k" "k < int (length line_list_nu)"
    "nu_insert \<le> line_list_nu ! nat (k - 1)" "line_list_nu ! nat k < nu_insert"
    using binary_search_bracket[of 0 "int (length line_list_nu)" line_list_nu nu_insert]
      assms(2,4) last by auto
  have below: "nu_insert \<le> line_list_nu ! j" if "j < nat k" for j
  proof -
    have "line_list_nu ! (nat k - 1) \<le> line_list_nu ! j"
      using strictly_decreasing_nth[OF assms(1), of j "nat k - 1"] that k(2,3) by simp
    moreover have "nat (k - 1) = nat k - 1"
      using k(2) by (simp add: nat_diff_distrib')
    ultimately show ?thesis using k(4) by simp
  qed
  show ?thesis
    using k below by (intro exI[of _ "nat k"]) auto
qed

theorem C1_binary_search_interior_witness:
  "sorted_wrt (>) [10, 5, 1 :: real] \<and> binary_search [10, 5, 1] 4 0 3 = Some 2"
proof -
  have "\<exists>i. binary_search [10, 5, 1] 4 0 (int (length [10, 5, 1 :: real])) = Some (int i)
           \<and> 1 \<le> i \<and> i < length [10, 5, 1 :: real]
           \<and> [10, 5, 1] ! i < (4 :: real)
           \<and> (\<forall>j<i. 4 \<le> [10, 5, 1 :: real] ! j)"
    by (rule C1_binary_search_interior) simp_all
  then obtain i where i: "binary_search [10, 5, 1] 4 0 3 = Some (int i)"
    "i < 3" "[10, 5, 1] ! i < (4 :: real)" "\<forall>j<i. 4 \<le> [10, 5, 1 :: real] ! j"
    by auto
  have "i = 2"
  proof (rule ccontr)
    assume "i \<noteq> 2"
    with i(2) have "i = 0 \<or> i = 1" by auto
    with i(3) show False by auto
  qed
  with i(1) show ?thesis by simp
qed

subsection \<open>C2: the transition types in the snapshot\<close>

text \<open>
  C2 fails on the code. For the two-level atom in macro-atom mode the only transition slot
  is an emission, type code \<open>-1\<close>, but the \<^verbatim>\<open>transition_type\<close> array of the snapshot is
  \<open>[0, 1]\<close>: line 163 of \<^verbatim>\<open>StorageModel.__init__\<close> fills it from
  \<^verbatim>\<open>macro_atom_references['block_references']\<close>, so it is the array of block offsets, which
  holds no \<open>-1\<close> and has one entry per level, not one per slot.
\<close>

theorem C2_transition_type_is_block_references:
  "StorageModel_init two_level_model = Inr (StorageModel_fill two_level_model)
   \<and> 1 \<le> line_interaction_id (StorageModel_fill two_level_model)
   \<and> macro_atom_data_transition_type two_level_model = [- 1]
   \<and> transition_type (StorageModel_fill two_level_model) = [0, 1]
   \<and> transition_type (StorageModel_fill two_level_model)
       = macro_block_references (StorageModel_fill two_level_model)"
  by (simp add: StorageModel_init_def example_defs)

subsection \<open>C3: the line emitted by macro\_atom\<close>

text \<open>
  C3 fails on the code. \<^verbatim>\<open>self.transition_line_id\<close> is never assigned (line 171 assigns
  the line ids to \<^verbatim>\<open>self.destination_level_id\<close>), and \<^verbatim>\<open>self.transition_type\<close> holds the
  block offsets. For the two-level atom, whose slot \<open>0\<close> is an emission of line \<open>1\<close>,
  \<^verbatim>\<open>macro_atom\<close> as the line handler calls it takes slot \<open>0\<close> for an internal transition to
  level \<open>1\<close> and then reads outside the tables; it does not return line \<open>1\<close>. Called
  with the tables of the atomic data it returns line \<open>1\<close>.
\<close>

theorem C3_macro_atom_reads_wrong_tables:
  "StorageModel_init two_level_model = Inr (StorageModel_fill two_level_model)
   \<and> transition_line_id (StorageModel_fill two_level_model) = []
   \<and> destination_level_id (StorageModel_fill two_level_model)
       = macro_atom_data_lines_idx two_level_model
   \<and> macro_atom 0
       (transition_probabilities (StorageModel_fill two_level_model))
       (transition_probabilities_nd (StorageModel_fill two_level_model))
       (transition_type (StorageModel_fill two_level_model))
       (destination_level_id (StorageModel_fill two_level_model))
       (transition_line_id (StorageModel_fill two_level_model))
       (macro_block_references (StorageModel_fill two_level_model))
       0 half_draws 0 = Some None
   \<and> macro_atom 0 [1] 1
       (macro_atom_data_transition_type two_level_model)
       (macro_atom_data_destination_level_idx two_level_model)
       (macro_atom_data_lines_idx two_level_model)
       (macro_atom_references_block_references two_level_model)
       0 half_draws 0 = Some (Some (1, 1))"
proof -
  have a: "macro_atom 1 [1] 1 [0, 1] [1] [] [0, 1] 0 half_draws (Suc 0) = Some None"
    by (subst macro_atom.simps)
       (simp add: rk_double_def rd_def half_draws_def block_example_off)
  have b: "macro_atom 0 [1] 1 [0, 1] [1] [] [0, 1] 0 half_draws 0 = Some None"
    by (subst macro_atom.simps) (simp add: rk_double_def rd_def half_draws_def block_example a)
  have c: "macro_atom 0 [1] 1 [- 1] [0] [1] [0, 1] 0 half_draws 0 = Some (Some (1, 1))"
    by (subst macro_atom.simps) (simp add: rk_double_def rd_def half_draws_def block_example)
  show ?thesis
    using b c by (simp add: StorageModel_init_def example_defs)
qed

subsection \<open>C4: one handler in every iteration\<close>

text \<open>
  C4 fails on the code when the smallest distance is attained twice. The first packet of
  \<open>tie_model\<close> enters the loop with the outer boundary and the next line both at \<open>12\<close> cm
  (in binary64 as in exact arithmetic: every operation of \<^verbatim>\<open>compute_distance2outer\<close> is
  exact there, and those of \<^verbatim>\<open>compute_distance2line\<close> round to \<open>12\<close>, lemma
  \<open>tie_line_distance_binary64\<close>), the inner boundary at \<open>miss_distance\<close> and the electron
  scattering further away; all four conditions of the chain compare with \<open><\<close>, none
  holds, and the iteration ends without running a handler.
\<close>

theorem C4_tie_runs_no_handler:
  "StorageModel_init tie_model = Inr (StorageModel_fill tie_model)
   \<and> map_option (one_packet_start half_draws)
       (setup_packet (driver_start (StorageModel_fill tie_model)) 0) = Some tie_start
   \<and> compute_distance2outer 9 0 15 = Some 12
   \<and> compute_distances tie_start = Some tie_state
   \<and> d_outer tie_state = 12 \<and> d_line tie_state = 12
   \<and> d_inner tie_state = miss_distance \<and> 12 < d_electron tie_state
   \<and> select_handler (d_outer tie_state) (d_inner tie_state) (d_electron tie_state)
       (d_line tie_state) = None
   \<and> one_iteration half_draws tie_start = Some (Some (Continue tie_state))"
proof -
  have "12 < ln 2 * inverse_sigma_thomson"
    using d_electron_far by simp
  then show ?thesis
    using tie_init tie_setup tie_distances_start tie_select tie_first_iteration
      compute_distance2outer_9_0_15
    by (simp add: tie_state_def)
qed

subsection \<open>C5: termination of the event loop\<close>

text \<open>
  C5 fails on the code, for the reason of C4: an iteration that runs no handler leaves
  the packet where it is, the next iteration computes the same four distances, and the
  loop never ends. For \<open>tie_model\<close> the state after the first iteration is reproduced by
  every later one, the event loop does not return, and so neither does the driver.
\<close>

theorem C5_tie_never_returns:
  "one_iteration half_draws tie_state = Some (Some (Continue tie_state))
   \<and> event_loop half_draws tie_start = None
   \<and> montecarlo_radial1d tie_model half_draws = None"
proof -
  have n: "no_of_packets (StorageModel_fill tie_model) = 5"
    by (simp add: example_defs)
  have idx: "map int [0 ..< 5] = 0 # map int [1 ..< 5]"
    by (simp add: upt_conv_Cons)
  have "montecarlo_radial1d tie_model half_draws = None"
    by (simp add: montecarlo_radial1d_def tie_init Let_def n idx tie_packet)
  then show ?thesis using tie_fixed_point tie_loop by simp
qed

subsection \<open>C6: the flag reabsorbed and the sign of the output\<close>

text \<open>
  C6 fails on the code, for the reason of C4 and C5: not every packet gets a flag. For
  the first packet of \<open>tie_model\<close> \<^verbatim>\<open>montecarlo_one_packet\<close> does not return, so that there
  is neither the flag \<open>0\<close> nor the flag \<open>1\<close>, and the driver writes nothing at position
  \<open>0\<close> of the output. A packet for which the loop returns does get \<open>0\<close> or \<open>1\<close> and the
  sign that goes with it (lemma \<open>montecarlo_radial1d_packet_returns\<close>): the first packet
  of \<open>escape_model\<close> leaves through the outer boundary with the flag \<open>0\<close> and the output
  \<open>nu = c\<close>, \<open>E = 1\<close>; the first packet of \<open>reabsorb_model\<close> is scattered inwards by a line,
  reaches the inner boundary with the flag \<open>1\<close>, and the output is \<open>-nu\<close> and \<open>-E\<close> for
  \<open>nu = 29979000000 / (1 + 15 / c)\<close> and \<open>E = 1 / (1 + 15 / c)\<close>.
\<close>

theorem C6_tie_packet_gets_no_flag:
  "(\<exists>s1. setup_packet (driver_start (StorageModel_fill tie_model)) 0 = Some s1
         \<and> montecarlo_one_packet half_draws s1 0 = None)
   \<and> montecarlo_radial1d_packet half_draws
        (driver_start (StorageModel_fill tie_model), replicate 5 0, replicate 5 0) 0 = None
   \<and> (\<exists>s1 s2. setup_packet (driver_start (StorageModel_fill escape_model)) 0 = Some s1
         \<and> montecarlo_one_packet half_draws s1 0 = Some (Some (0, s2))
         \<and> montecarlo_radial1d_packet half_draws
              (driver_start (StorageModel_fill escape_model), replicate 5 0, replicate 5 0) 0
              = Some (Some (s2, [29979245800, 0, 0, 0, 0], [1, 0, 0, 0, 0])))
   \<and> (\<exists>s1 s2. setup_packet (driver_start (StorageModel_fill reabsorb_model)) 0 = Some s1
         \<and> montecarlo_one_packet reabsorb_draws s1 0 = Some (Some (1, s2))
         \<and> montecarlo_radial1d_packet reabsorb_draws
              (driver_start (StorageModel_fill reabsorb_model), replicate 5 0, replicate 5 0) 0
              = Some (Some (s2, [- (29979000000 / (1 + 15 / c)), 0, 0, 0, 0],
                            [- (1 / (1 + 15 / c)), 0, 0, 0, 0])))"
  using tie_one_packet tie_packet escape_packet reabsorb_packet by blast

subsection \<open>C7: compute\_distance2line\<close>



subsection \<open>C8: compute\_distance2outer\<close>

text \<open>
  C8, as stated, fails: in binary64 the distance can be negative. At the outer boundary,
  \<open>r = r_outer = 2 * 10\<^sup>1\<^sup>5\<close> (with \<open>r_inner = 10\<^sup>1\<^sup>5\<close>), and \<open>mu = 1/2\<close> the exact distance
  is \<open>0\<close>, the discriminant computed by the code is below \<open>10\<^sup>3\<^sup>0\<close>, and
  \<^verbatim>\<open>compute_distance2outer\<close> returns \<open>-1/8\<close>.
\<close>

theorem C8_compute_distance2outer_negative:
  "(10 ^ 15 :: real) \<le> 2 * 10 ^ 15 \<and> - 1 \<le> (1 / 2 :: real) \<and> (1 / 2 :: real) \<le> 1
   \<and> d_out_spec (2 * 10 ^ 15) (1 / 2) (2 * 10 ^ 15) = 0
   \<and> discriminant2outer (2 * 10 ^ 15) (1 / 2) (2 * 10 ^ 15) = Some (1776356839400250 * 2 ^ 49)
   \<and> compute_distance2outer (2 * 10 ^ 15) (1 / 2) (2 * 10 ^ 15) = Some (- 1 / 8)"
  using d_out_spec_grazing discriminant2outer_grazing compute_distance2outer_grazing
  by simp

text \<open>
  C8, amended: for a radius \<open>r\<close> inside the shell, \<open>0 \<le> r_inner \<le> r \<le> r_outer\<close>, an outer
  radius of at most \<open>2\<^sup>5\<^sup>0\<^sup>0\<close> (no operation overflows) and a direction cosine \<open>mu\<close> in
  \<open>[-1, 1]\<close>: in exact arithmetic the discriminant \<open>r_outer\<^sup>2 + (mu\<^sup>2 - 1) * r\<^sup>2\<close> and the
  distance \<open>sqrt (r_outer\<^sup>2 + (mu\<^sup>2 - 1) * r\<^sup>2) - r * mu\<close> are not negative; in binary64 the
  discriminant computed by \<^verbatim>\<open>compute_distance2outer\<close> is not negative, so that the square
  root is not a NaN and a distance is returned, and that distance is not negative when
  \<open>mu \<le> 0\<close>. For \<open>mu > 0\<close> the sign of the distance returned is left open.
\<close>

theorem C8_compute_distance2outer_amended:
  fixes r mu r_inner r_outer :: real
  assumes "0 \<le> r_inner" "r_inner \<le> r" "r \<le> r_outer" "r_outer \<le> 2 ^ 500"
    and "- 1 \<le> mu" "mu \<le> 1"
  shows "0 \<le> r_outer ^ 2 + (mu ^ 2 - 1) * r ^ 2
         \<and> 0 \<le> d_out_spec r mu r_outer
         \<and> (\<exists>disc d. discriminant2outer r mu r_outer = Some disc \<and> 0 \<le> disc
               \<and> compute_distance2outer r mu r_outer = Some d \<and> (mu \<le> 0 \<longrightarrow> 0 \<le> d))"
proof -
  have r0: "0 \<le> r" using assms(1,2) by simp
  show ?thesis
    using d_out_spec_nonneg[OF r0 assms(3,5,6)]
      compute_distance2outer_total[OF r0 assms(3,4,5,6)]
    by simp
qed

theorem C8_compute_distance2outer_amended_witness:
  "(0 :: real) \<le> 9 \<and> (9 :: real) \<le> 9 \<and> (9 :: real) \<le> 15 \<and> (15 :: real) \<le> 2 ^ 500
   \<and> - 1 \<le> (0 :: real) \<and> (0 :: real) \<le> 1
   \<and> d_out_spec 9 0 15 = 12
   \<and> discriminant2outer 9 0 15 = Some 144
   \<and> compute_distance2outer 9 0 15 = Some 12"
proof -
  have "discriminant2outer 9 0 15 = Some 144"
    by (simp add: discriminant2outer_def f64_int)
  moreover have "d_out_spec 9 0 15 = 12"
    by (simp add: d_out_spec_def sqrt_144)
  ultimately show ?thesis
    using C8_compute_distance2outer_amended [of 9 9 15 0] compute_distance2outer_9_0_15
    by simp
qed

subsection \<open>C9: the line cursor after electron scattering\<close>

text \<open>
  C9: the electron-scattering handler leaves \<open>current_line_id\<close>, \<open>last_line\<close> and
  \<open>close_line\<close> as they were; no line search is run on the new frequency. It sets \<open>mu\<close> to
  \<open>2 U\<^sub>1 - 1\<close>, \<open>tau_event\<close> to \<open>- ln U\<^sub>2\<close> for the next two numbers of the generator,
  \<open>recently_crossed_boundary\<close> to \<open>0\<close>, and \<open>nu\<close> and \<open>E\<close> to their old values times the
  Doppler factor returned by \<^verbatim>\<open>move_packet\<close> over the Doppler factor of the new direction.
\<close>

theorem C9_electron_event_keeps_line_cursor:
  assumes "electron_event draws s = Some s'"
  shows "current_line_id s' = current_line_id s
         \<and> last_line s' = last_line s
         \<and> close_line s' = close_line s
         \<and> current_mu s' = 2 * draws (mt_state s) - 1
         \<and> tau_event s' = - ln (draws (Suc (mt_state s)))
         \<and> recently_crossed_boundary s' = 0
         \<and> (\<exists>doppler_factor s1.
               move_packet_call s (d_electron s) = Some (doppler_factor, s1)
               \<and> current_r s' = current_r s1
               \<and> current_nu s' = current_nu s * doppler_factor
                   * (1 / (1 - current_mu s' * current_r s'
                            * inverse_time_explosion (storage s) * inverse_c))
               \<and> current_energy s' = current_energy s * doppler_factor
                   * (1 / (1 - current_mu s' * current_r s'
                            * inverse_time_explosion (storage s) * inverse_c)))"
proof -
  from assms obtain doppler_factor s1 where
    m: "move_packet_call s (d_electron s) = Some (doppler_factor, s1)"
    by (auto simp: electron_event_def split: Option.bind_splits)
  have fr: "current_line_id s1 = current_line_id s" "last_line s1 = last_line s"
    "close_line s1 = close_line s" "current_nu s1 = current_nu s"
    "current_energy s1 = current_energy s" "mt_state s1 = mt_state s"
    "inverse_time_explosion (storage s1) = inverse_time_explosion (storage s)"
    using m by (auto simp: move_packet_call_def split: Option.bind_splits prod.splits)
  have s': "s' = s1\<lparr>current_mu := 2 * draws (mt_state s1) - 1,
                   current_nu := current_nu s1 * doppler_factor
                     * (1 / (1 - (2 * draws (mt_state s1) - 1) * current_r s1
                              * inverse_time_explosion (storage s1) * inverse_c)),
                   current_energy := current_energy s1 * doppler_factor
                     * (1 / (1 - (2 * draws (mt_state s1) - 1) * current_r s1
                              * inverse_time_explosion (storage s1) * inverse_c)),
                   tau_event := - ln (draws (Suc (mt_state s1))),
                   mt_state := Suc (Suc (mt_state s1)),
                   recently_crossed_boundary := 0\<rparr>"
    using assms m by (simp add: electron_event_def Let_def rk_double_def)
  show ?thesis
    using m by (simp add: s' fr)
qed

theorem C9_electron_event_keeps_line_cursor_witness:
  "\<exists>s'. electron_event half_draws scatter_state = Some s'
        \<and> current_line_id s' = 1 \<and> last_line s' = 0 \<and> close_line s' = 0
        \<and> current_mu s' = 0 \<and> tau_event s' = ln 2 \<and> recently_crossed_boundary s' = 0
        \<and> current_r s' = 11 * 10 ^ 14"
proof -
  have m: "move_packet_call scatter_state (d_electron scatter_state) \<noteq> None"
    by (simp add: move_packet_call_def move_packet_def add_at_def scatter_state_def
          example_defs)
  then have "electron_event half_draws scatter_state \<noteq> None"
    by (auto simp: electron_event_def Let_def rk_double_def split: prod.splits)
  then obtain s' where s': "electron_event half_draws scatter_state = Some s'" by auto
  have r: "\<exists>dop s1. move_packet_call scatter_state (d_electron scatter_state) = Some (dop, s1)
              \<and> current_r s1 = 11 * 10 ^ 14"
    by (simp add: move_packet_call_def move_packet_def add_at_def scatter_state_def
          example_defs sqrt_scatter)
  show ?thesis
    using C9_electron_event_keeps_line_cursor[OF s'] s' r
    by (auto simp: scatter_state_def example_defs ln_half)
qed

subsection \<open>C10: move\_packet at a distance that is not positive\<close>

text \<open>
  C10: for every distance \<open>d \<le> 0\<close>, zero or negative, \<^verbatim>\<open>move_packet\<close> returns the Doppler
  factor \<open>1 - mu * r / (c * t_exp)\<close> (its argument \<open>inverse_t_exp\<close> being \<open>1 / t_exp\<close>) and
  leaves \<open>r\<close>, \<open>mu\<close>, \<open>js\<close> and \<open>nubars\<close> as they were.
\<close>

theorem C10_move_packet_nonpositive:
  fixes r mu nu energy distance t_exp :: real
    and js nubars :: "real list" and cur_zone_id :: int
  assumes "distance \<le> 0"
  shows "move_packet r mu nu energy distance js nubars (1 / t_exp) cur_zone_id
           = Some (1 - mu * r / (c * t_exp), r, mu, js, nubars)"
  using assms by (simp add: move_packet_def inverse_c_def)

theorem C10_move_packet_nonpositive_witness:
  "(- 3 :: real) \<le> 0
   \<and> move_packet 2 1 5 7 (- 3) [1, 2] [3, 4] (1 / 10) 0
       = Some (1 - 1 * 2 / (c * 10), 2, 1, [1, 2], [3, 4])"
  using C10_move_packet_nonpositive [of "- 3" 2 1 5 7 "[1, 2]" "[3, 4]" 10 0] by simp

end
